theory Spec2Isabelle
  imports Complex_Main "HOL-Library.AList" "HOL-Library.Char_ord"
    "HOL-Library.List_Lexorder" "HOL-Library.Option_ord" "HOL-Library.Product_Lexorder"
begin

section \<open>Python values, exceptions and the library functions the program calls\<close>

text \<open>
  The values that flow through \<^verbatim>\<open>app.py\<close>: what \<^verbatim>\<open>json.loads\<close> produces
  (None, bool, int, float, str, list, dict), and the two BSON types the driver adds
  (datetime, ObjectId). A dict is an association list in insertion order, read with
  \<open>map_of\<close>. A float is the real number it denotes (NaN and the infinities are outside
  the model); the handlers only copy floats. An instant is a number of microseconds since
  the epoch, in UTC.
\<close>

datatype pyval =
    PNone
  | PBool bool
  | PInt int
  | PFloat real
  | PStr string
  | PList "pyval list"
  | PDict "(string \<times> pyval) list"
  | PDatetime int
  | PObjectId nat

type_synonym doc = "(string \<times> pyval) list"

datatype exn_class =
  KeyError | TypeError | AttributeError | ValueError | OverflowError | PyMongoError

text \<open>An exception is its class and the text \<^verbatim>\<open>str(e)\<close> gives.\<close>

datatype py_exn = Exn exn_class string

fun str_exn :: "py_exn \<Rightarrow> string" where
  "str_exn (Exn c msg) = msg"

definition bind_exn :: "py_exn + 'a \<Rightarrow> ('a \<Rightarrow> py_exn + 'b) \<Rightarrow> py_exn + 'b" where
  "bind_exn m f = (case m of Inl e \<Rightarrow> Inl e | Inr v \<Rightarrow> f v)"

definition quoted :: "string \<Rightarrow> string" where
  "quoted s = [CHR 0x27] @ s @ [CHR 0x27]"

fun py_type_name :: "pyval \<Rightarrow> string" where
  "py_type_name PNone = ''NoneType''"
| "py_type_name (PBool b) = ''bool''"
| "py_type_name (PInt n) = ''int''"
| "py_type_name (PFloat r) = ''float''"
| "py_type_name (PStr s) = ''str''"
| "py_type_name (PList xs) = ''list''"
| "py_type_name (PDict kvs) = ''dict''"
| "py_type_name (PDatetime t) = ''datetime.datetime''"
| "py_type_name (PObjectId n) = ''ObjectId''"

definition no_attribute :: "pyval \<Rightarrow> string \<Rightarrow> py_exn" where
  "no_attribute v a =
     Exn AttributeError (quoted (py_type_name v) @ '' object has no attribute '' @ quoted a)"

text \<open>
  \<^verbatim>\<open>v.get(k, dflt)\<close>: only a dict has the method; on any other value the attribute
  lookup raises AttributeError.
\<close>

fun py_get :: "pyval \<Rightarrow> string \<Rightarrow> pyval \<Rightarrow> py_exn + pyval" where
  "py_get (PDict kvs) k dflt = Inr (case map_of kvs k of None \<Rightarrow> dflt | Some v \<Rightarrow> v)"
| "py_get v k dflt = Inl (no_attribute v ''get'')"

text \<open>\<^verbatim>\<open>v[k]\<close> with a string key \<open>k\<close>.\<close>

fun py_getitem :: "pyval \<Rightarrow> string \<Rightarrow> py_exn + pyval" where
  "py_getitem (PDict kvs) k =
     (case map_of kvs k of None \<Rightarrow> Inl (Exn KeyError (quoted k)) | Some v \<Rightarrow> Inr v)"
| "py_getitem (PList xs) k = Inl (Exn TypeError ''list indices must be integers or slices, not str'')"
| "py_getitem (PStr s) k = Inl (Exn TypeError ''string indices must be integers'')"
| "py_getitem v k = Inl (Exn TypeError (quoted (py_type_name v) @ '' object is not subscriptable''))"

text \<open>
  The library functions whose implementation is not part of the repository are a
  parameter of the model:
  \<^item> \<^verbatim>\<open>json.loads(bytes.decode())\<close>;
  \<^item> \<^verbatim>\<open>int(s)\<close> on a string, which answers an integer or raises ValueError (\<open>Inl\<close> is
    the text of the error);
  \<^item> \<^verbatim>\<open>float(s)\<close> on a string;
  \<^item> \<^verbatim>\<open>timedelta(minutes=f)\<close>, as a number of microseconds (Python rounds the product,
    which it computes in double precision, to a whole microsecond, and raises
    OverflowError when the duration is out of range);
  \<^item> \<^verbatim>\<open>datetime.fromisoformat\<close> and \<^verbatim>\<open>datetime.isoformat\<close>;
  \<^item> the builtin \<^verbatim>\<open>str\<close>.
\<close>

record pylib =
  json_loads :: "string \<Rightarrow> py_exn + pyval"
  py_int :: "string \<Rightarrow> string + int"
  py_float :: "string \<Rightarrow> py_exn + real"
  timedelta_minutes :: "real \<Rightarrow> py_exn + int"
  fromisoformat :: "string \<Rightarrow> py_exn + int"
  isoformat :: "int \<Rightarrow> string"
  py_str :: "pyval \<Rightarrow> string"

section \<open>The document store\<close>

text \<open>
  The two collections hold their documents in insertion order. Any driver call may raise
  (the server is unreachable, the document cannot be encoded, the query fails): \<open>raises\<close>
  says which calls do, and with which exception. Aggregation pipelines are evaluated by
  the server; their answers are the parameter \<open>aggregate_answer\<close>.
\<close>

datatype coll = Imu | Gps

datatype db_call =
    Ping
  | InsertOne coll doc
  | Distinct coll string
  | Find coll doc
  | FindOne coll
  | Aggregate coll pyval
  | CountDocuments coll doc

record mongo_db =
  imu :: "doc list"
  gps :: "doc list"
  next_oid :: nat
  raises :: "db_call \<Rightarrow> py_exn option"
  aggregate_answer :: "coll \<Rightarrow> pyval \<Rightarrow> doc list"

fun docs_of :: "mongo_db \<Rightarrow> coll \<Rightarrow> doc list" where
  "docs_of db Imu = imu db"
| "docs_of db Gps = gps db"

text \<open>
  \<^verbatim>\<open>collection.insert_one(doc)\<close>: the driver gives the document a fresh ObjectId under
  \<^verbatim>\<open>_id\<close> when it has none, and answers the inserted id. (BSON keeps a datetime to
  the millisecond; the model keeps the instant as the handler passes it.)
\<close>

definition insert_one :: "mongo_db \<Rightarrow> coll \<Rightarrow> doc \<Rightarrow> py_exn + (pyval \<times> mongo_db)" where
  "insert_one db c d =
     (case raises db (InsertOne c d) of
        Some e \<Rightarrow> Inl e
      | None \<Rightarrow>
          (let stored = (case map_of d ''_id'' of
                           None \<Rightarrow> (''_id'', PObjectId (next_oid db)) # d
                         | Some v \<Rightarrow> d);
               inserted_id = (case map_of d ''_id'' of
                           None \<Rightarrow> PObjectId (next_oid db)
                         | Some v \<Rightarrow> v);
               db' = (case c of
                        Imu \<Rightarrow> db\<lparr>imu := imu db @ [stored]\<rparr>
                      | Gps \<Rightarrow> db\<lparr>gps := gps db @ [stored]\<rparr>)
           in Inr (inserted_id, db'\<lparr>next_oid := Suc (next_oid db)\<rparr>)))"

section \<open>The message handler\<close>

definition MQTT_TOPIC_IMU :: string where
  "MQTT_TOPIC_IMU = ''/mobile/imu''"

definition MQTT_TOPIC_GPS :: string where
  "MQTT_TOPIC_GPS = ''/mobile/gps''"

text \<open>
  A delivered message: the retained flag as the handler compares it (\<^verbatim>\<open>msg.retain == 1\<close>),
  the topic and the payload bytes.
\<close>

record mqtt_msg =
  retain :: int
  topic :: string
  payload :: string

text \<open>The lines \<^verbatim>\<open>on_message\<close> prints, one constructor for each \<^verbatim>\<open>print\<close>.\<close>

datatype log_event =
    IgnoringRetained
  | TimedOut
  | DbIsNone
  | ImuSaved pyval pyval
  | GpsSaved pyval pyval
  | MissingKey string
  | MessageError string

text \<open>
  The dict display of the IMU branch. Python evaluates the entries in order, and the first
  one that raises ends the evaluation.
\<close>

definition imu_doc :: "pyval \<Rightarrow> int \<Rightarrow> py_exn + doc" where
  "imu_doc p received_at =
     bind_exn (py_get p ''timestamp'' PNone) (\<lambda>ts.
     bind_exn (py_get p ''session'' PNone) (\<lambda>ss.
     bind_exn (bind_exn (py_getitem p ''acc'') (\<lambda>a. py_getitem a ''x'')) (\<lambda>ax.
     bind_exn (bind_exn (py_getitem p ''acc'') (\<lambda>a. py_getitem a ''y'')) (\<lambda>ay.
     bind_exn (bind_exn (py_getitem p ''acc'') (\<lambda>a. py_getitem a ''z'')) (\<lambda>az.
     bind_exn (bind_exn (py_get p ''gyro'' (PDict [])) (\<lambda>g. py_get g ''x'' (PFloat 0))) (\<lambda>gx.
     bind_exn (bind_exn (py_get p ''gyro'' (PDict [])) (\<lambda>g. py_get g ''y'' (PFloat 0))) (\<lambda>gy.
     bind_exn (bind_exn (py_get p ''gyro'' (PDict [])) (\<lambda>g. py_get g ''z'' (PFloat 0))) (\<lambda>gz.
     Inr [(''timestamp'', ts), (''session'', ss),
          (''ax'', ax), (''ay'', ay), (''az'', az),
          (''gx'', gx), (''gy'', gy), (''gz'', gz),
          (''received_at'', PDatetime received_at)]))))))))"

definition gps_doc :: "pyval \<Rightarrow> int \<Rightarrow> py_exn + doc" where
  "gps_doc p received_at =
     bind_exn (py_get p ''timestamp'' PNone) (\<lambda>ts.
     bind_exn (py_get p ''session'' PNone) (\<lambda>ss.
     bind_exn (bind_exn (py_getitem p ''gps'') (\<lambda>g. py_getitem g ''lat'')) (\<lambda>lat.
     bind_exn (bind_exn (py_getitem p ''gps'') (\<lambda>g. py_getitem g ''lon'')) (\<lambda>lon.
     Inr [(''timestamp'', ts), (''session'', ss),
          (''lat'', lat), (''lon'', lon),
          (''received_at'', PDatetime received_at)]))))"

text \<open>
  The two handlers of the \<^verbatim>\<open>try\<close>: \<^verbatim>\<open>except KeyError\<close> first, then
  \<^verbatim>\<open>except Exception\<close>. Both only print.
\<close>

fun except_log :: "py_exn \<Rightarrow> log_event" where
  "except_log (Exn KeyError msg) = MissingKey msg"
| "except_log (Exn c msg) = MessageError msg"

text \<open>
  \<^verbatim>\<open>on_message\<close>. \<open>ready\<close> is what \<^verbatim>\<open>mongo_ready.wait(timeout=10)\<close> answers and
  \<open>now\<close> what \<^verbatim>\<open>datetime.now(timezone.utc)\<close> answers. The result is the store after
  the call (the global \<^verbatim>\<open>mongo_db\<close>, None when not connected) and the lines printed.
\<close>

definition on_message ::
  "pylib \<Rightarrow> bool \<Rightarrow> int \<Rightarrow> mongo_db option \<Rightarrow> mqtt_msg \<Rightarrow> mongo_db option \<times> log_event list" where
  "on_message L ready now mdb m =
     (if retain m = 1 then (mdb, [IgnoringRetained])
      else if \<not> ready then (mdb, [TimedOut])
      else
        (case json_loads L (payload m) of
           Inl e \<Rightarrow> (mdb, [except_log e])
         | Inr p \<Rightarrow>
             (case mdb of
                None \<Rightarrow> (mdb, [DbIsNone])
              | Some db \<Rightarrow>
                  if topic m = MQTT_TOPIC_IMU then
                    (case imu_doc p now of
                       Inl e \<Rightarrow> (mdb, [except_log e])
                     | Inr d \<Rightarrow>
                         (case insert_one db Imu d of
                            Inl e \<Rightarrow> (mdb, [except_log e])
                          | Inr (oid, db') \<Rightarrow>
                              (case py_get p ''session'' PNone of
                                 Inl e \<Rightarrow> (Some db', [except_log e])
                               | Inr s \<Rightarrow> (Some db', [ImuSaved s oid]))))
                  else if topic m = MQTT_TOPIC_GPS then
                    (case gps_doc p now of
                       Inl e \<Rightarrow> (mdb, [except_log e])
                     | Inr d \<Rightarrow>
                         (case insert_one db Gps d of
                            Inl e \<Rightarrow> (mdb, [except_log e])
                          | Inr (oid, db') \<Rightarrow>
                              (case py_get p ''session'' PNone of
                                 Inl e \<Rightarrow> (Some db', [except_log e])
                               | Inr s \<Rightarrow> (Some db', [GpsSaved s oid]))))
                  else (mdb, []))))"

section \<open>The query builder\<close>

text \<open>\<^verbatim>\<open>s.replace("Z", "+00:00")\<close>: every \<^verbatim>\<open>Z\<close> of the string is replaced.\<close>

definition replace_Z :: "string \<Rightarrow> string" where
  "replace_Z s = concat (map (\<lambda>c. if c = CHR ''Z'' then ''+00:00'' else [c]) s)"

text \<open>
  The subtraction of a timedelta (in microseconds) from a datetime: exact, and
  OverflowError when the result leaves the years 1 to 9999.
\<close>

definition datetime_sub :: "int \<Rightarrow> int \<Rightarrow> py_exn + int" where
  "datetime_sub t d =
     (if - 62135596800000000 \<le> t - d \<and> t - d \<le> 253402300799999999 then Inr (t - d)
      else Inl (Exn OverflowError ''date value out of range''))"

text \<open>
  The request arguments are the pairs of the query string; \<^verbatim>\<open>args.get(k)\<close> is the
  first value given for \<open>k\<close>, or None. A Python string is true when it is not empty.
\<close>

type_synonym args = "(string \<times> string) list"

definition truthy_arg :: "args \<Rightarrow> string \<Rightarrow> string option" where
  "truthy_arg a k = (case map_of a k of None \<Rightarrow> None | Some s \<Rightarrow> if s = [] then None else Some s)"

text \<open>\<^verbatim>\<open>int(args.get("limit", 2000))\<close>: line 369.\<close>

definition limit_arg :: "pylib \<Rightarrow> args \<Rightarrow> py_exn + int" where
  "limit_arg L a =
     (case map_of a ''limit'' of
        None \<Rightarrow> Inr 2000
      | Some s \<Rightarrow> (case py_int L s of Inl msg \<Rightarrow> Inl (Exn ValueError msg) | Inr n \<Rightarrow> Inr n))"

text \<open>
  The session filter, lines 372 to 376: the \<^verbatim>\<open>try\<close> gives the integer, and its
  \<^verbatim>\<open>except ValueError\<close> the raw string. The step does not raise.
\<close>

definition session_filter :: "pylib \<Rightarrow> args \<Rightarrow> doc" where
  "session_filter L a =
     (case map_of a ''session'' of
        None \<Rightarrow> []
      | Some s \<Rightarrow>
          if s = [] \<or> s = ''all'' then []
          else
            (case py_int L s of
               Inr n \<Rightarrow> AList.update ''session'' (PInt n) []
             | Inl msg \<Rightarrow> AList.update ''session'' (PStr s) []))"

text \<open>The explicit range of the \<^verbatim>\<open>else\<close> branch: lines 384 to 390.\<close>

definition range_filter :: "pylib \<Rightarrow> args \<Rightarrow> doc \<Rightarrow> py_exn + doc" where
  "range_filter L a query =
     bind_exn
       (case truthy_arg a ''from_dt'' of
          None \<Rightarrow> Inr []
        | Some s \<Rightarrow>
            bind_exn (fromisoformat L (replace_Z s))
              (\<lambda>t. Inr (AList.update ''$gte'' (PDatetime t) [])))
       (\<lambda>f1.
          bind_exn
            (case truthy_arg a ''to_dt'' of
               None \<Rightarrow> Inr f1
             | Some s \<Rightarrow>
                 bind_exn (fromisoformat L (replace_Z s))
                   (\<lambda>t. Inr (AList.update ''$lte'' (PDatetime t) f1)))
            (\<lambda>dt_filter.
               if dt_filter \<noteq> [] then Inr (AList.update ''received_at'' (PDict dt_filter) query)
               else Inr query))"

text \<open>
  \<^verbatim>\<open>_build_query(args)\<close>; \<open>now\<close> is what \<^verbatim>\<open>datetime.now(timezone.utc)\<close> answers.
  An exception of the function is the \<open>Inl\<close> result: the function has no handler of its
  own but the one for the session. (Where \<^verbatim>\<open>float\<close> would answer NaN or an infinity,
  \<^verbatim>\<open>timedelta\<close> raises; \<open>py_float\<close> stands for both steps there and answers the
  exception.)
\<close>

definition build_query :: "pylib \<Rightarrow> int \<Rightarrow> args \<Rightarrow> py_exn + (doc \<times> int)" where
  "build_query L now a =
     bind_exn (limit_arg L a) (\<lambda>limit.
       let query = session_filter L a
       in (case truthy_arg a ''minutes'' of
             Some m \<Rightarrow>
               bind_exn (py_float L m) (\<lambda>f.
               bind_exn (timedelta_minutes L f) (\<lambda>d.
               bind_exn (datetime_sub now d) (\<lambda>dt_from.
                 Inr (AList.update ''received_at'' (PDict [(''$gte'', PDatetime dt_from)]) query,
                      limit))))
           | None \<Rightarrow>
               bind_exn (range_filter L a query) (\<lambda>q. Inr (q, limit))))"

section \<open>The driver calls the endpoints make\<close>

text \<open>
  How the server matches a document against a filter, for the filters the query builder
  produces: an equality on a field (numbers compare by value whatever their type), and
  the range operators \<^verbatim>\<open>$gte\<close> and \<^verbatim>\<open>$lte\<close> on a date. A field that holds an
  array matches when the array or one of its elements does.
\<close>

definition bson_number :: "pyval \<Rightarrow> real option" where
  "bson_number v = (case v of PInt n \<Rightarrow> Some (of_int n) | PFloat r \<Rightarrow> Some r | _ \<Rightarrow> None)"

definition bson_eq :: "pyval \<Rightarrow> pyval \<Rightarrow> bool" where
  "bson_eq a b =
     (case (bson_number a, bson_number b) of
        (Some x, Some y) \<Rightarrow> x = y
      | _ \<Rightarrow> a = b)"

definition op_holds :: "string \<Rightarrow> pyval \<Rightarrow> pyval \<Rightarrow> bool" where
  "op_holds op bound v =
     (case (v, bound) of
        (PDatetime t, PDatetime b) \<Rightarrow>
          (if op = ''$gte'' then b \<le> t else if op = ''$lte'' then t \<le> b else False)
      | _ \<Rightarrow> False)"

definition candidates :: "pyval \<Rightarrow> pyval list" where
  "candidates v = (case v of PList xs \<Rightarrow> v # xs | _ \<Rightarrow> [v])"

definition cond_holds :: "pyval \<Rightarrow> pyval \<Rightarrow> bool" where
  "cond_holds cond v =
     (case cond of
        PDict ops \<Rightarrow> list_all (\<lambda>(op, bound). list_ex (op_holds op bound) (candidates v)) ops
      | _ \<Rightarrow> list_ex (\<lambda>x. bson_eq x cond) (candidates v))"

definition matches :: "doc \<Rightarrow> doc \<Rightarrow> bool" where
  "matches query d =
     list_all (\<lambda>(k, cond). case map_of d k of None \<Rightarrow> False | Some v \<Rightarrow> cond_holds cond v) query"

text \<open>
  The sort key for \<^verbatim>\<open>received_at\<close>. The handler only ever stores a datetime there.
  In BSON's order of types a date stands above every other value of \<open>pyval\<close>, so a
  document without a date there sorts below all dated ones; the order among such
  documents is not modelled (they rank equal, and keep their insertion order).
\<close>

definition received_key :: "doc \<Rightarrow> int option" where
  "received_key d = (case map_of d ''received_at'' of Some (PDatetime t) \<Rightarrow> Some t | _ \<Rightarrow> None)"

text \<open>
  An inclusion projection: the fields given 1 are kept, and \<^verbatim>\<open>_id\<close> is kept unless it
  is given 0.
\<close>

definition project :: "(string \<times> int) list \<Rightarrow> doc \<Rightarrow> doc" where
  "project proj d =
     filter (\<lambda>(k, v). if k = ''_id'' then map_of proj ''_id'' \<noteq> Some 0 else map_of proj k = Some 1) d"

text \<open>\<^verbatim>\<open>cursor.limit(n)\<close>: 0 is no limit, and a negative limit is read as its magnitude.\<close>

definition apply_limit :: "int \<Rightarrow> 'a list \<Rightarrow> 'a list" where
  "apply_limit n xs = (if n = 0 then xs else take (nat \<bar>n\<bar>) xs)"

text \<open>\<^verbatim>\<open>list(collection.find(query, proj).sort("received_at", 1).limit(n))\<close>.\<close>

definition find_sorted ::
  "mongo_db \<Rightarrow> coll \<Rightarrow> doc \<Rightarrow> (string \<times> int) list \<Rightarrow> int \<Rightarrow> py_exn + doc list" where
  "find_sorted db c query proj n =
     (case raises db (Find c query) of
        Some e \<Rightarrow> Inl e
      | None \<Rightarrow>
          Inr (map (project proj)
                 (apply_limit n (sort_key received_key (filter (matches query) (docs_of db c))))))"

text \<open>
  \<^verbatim>\<open>collection.find_one(sort=[("received_at", -1)])\<close>: no filter, the first document in
  descending order of \<^verbatim>\<open>received_at\<close>, or None when the collection is empty.
\<close>

definition find_one_latest :: "mongo_db \<Rightarrow> coll \<Rightarrow> py_exn + doc option" where
  "find_one_latest db c =
     (case raises db (FindOne c) of
        Some e \<Rightarrow> Inl e
      | None \<Rightarrow>
          Inr (case rev (sort_key received_key (rev (docs_of db c))) of
                 [] \<Rightarrow> None
               | d # ds \<Rightarrow> Some d))"

definition count_documents :: "mongo_db \<Rightarrow> coll \<Rightarrow> doc \<Rightarrow> py_exn + nat" where
  "count_documents db c query =
     (case raises db (CountDocuments c query) of
        Some e \<Rightarrow> Inl e
      | None \<Rightarrow> Inr (length (filter (matches query) (docs_of db c))))"

definition aggregate :: "mongo_db \<Rightarrow> coll \<Rightarrow> pyval \<Rightarrow> py_exn + doc list" where
  "aggregate db c pipeline =
     (case raises db (Aggregate c pipeline) of
        Some e \<Rightarrow> Inl e
      | None \<Rightarrow> Inr (aggregate_answer db c pipeline))"

text \<open>
  \<^verbatim>\<open>collection.distinct(k)\<close>: the values the documents hold under \<open>k\<close>, an array
  counting as its elements, each value once. The order of the answer is not specified by
  the server; the model takes one.
\<close>

definition distinct_values :: "mongo_db \<Rightarrow> coll \<Rightarrow> string \<Rightarrow> py_exn + pyval list" where
  "distinct_values db c k =
     (case raises db (Distinct c k) of
        Some e \<Rightarrow> Inl e
      | None \<Rightarrow>
          Inr (remdups (concat (map (\<lambda>d. case map_of d k of
                                            None \<Rightarrow> []
                                          | Some (PList xs) \<Rightarrow> xs
                                          | Some v \<Rightarrow> [v])
                                  (docs_of db c)))))"

definition ping :: "mongo_db \<Rightarrow> py_exn + unit" where
  "ping db = (case raises db Ping of Some e \<Rightarrow> Inl e | None \<Rightarrow> Inr ())"

section \<open>Python sets and \<^verbatim>\<open>sorted\<close>\<close>

text \<open>
  Python's \<^verbatim>\<open>==\<close> and \<^verbatim>\<open><\<close> on the values above. Numbers (bool, int, float) compare
  with each other by value, strings with strings, dates with dates, ObjectIds with
  ObjectIds. None is equal to itself and ordered with nothing. A list or a dict cannot be
  a member of a set. \<open>py_class\<close> is the family of a value and \<open>py_key\<close> its place in the
  family: two hashable values are equal exactly when their keys are.
\<close>

fun py_class :: "pyval \<Rightarrow> nat" where
  "py_class PNone = 0"
| "py_class (PBool b) = 1"
| "py_class (PInt n) = 1"
| "py_class (PFloat r) = 1"
| "py_class (PStr s) = 2"
| "py_class (PDatetime t) = 3"
| "py_class (PObjectId n) = 4"
| "py_class (PList xs) = 5"
| "py_class (PDict kvs) = 6"

fun py_key :: "pyval \<Rightarrow> nat \<times> real \<times> string" where
  "py_key PNone = (0, 0, [])"
| "py_key (PBool b) = (1, of_bool b, [])"
| "py_key (PInt n) = (1, of_int n, [])"
| "py_key (PFloat r) = (1, r, [])"
| "py_key (PStr s) = (2, 0, s)"
| "py_key (PDatetime t) = (3, of_int t, [])"
| "py_key (PObjectId n) = (4, of_nat n, [])"
| "py_key (PList xs) = (5, 0, [])"
| "py_key (PDict kvs) = (6, 0, [])"

definition hashable :: "pyval \<Rightarrow> bool" where
  "hashable v = (py_class v < 5)"

definition orderable :: "pyval \<Rightarrow> pyval \<Rightarrow> bool" where
  "orderable a b = (py_class a = py_class b \<and> 1 \<le> py_class a \<and> py_class a \<le> 4)"

text \<open>
  A set is the list of its members, each once. \<^verbatim>\<open>s.add(v)\<close> leaves the set as it is
  when it holds a member equal to \<open>v\<close>.
\<close>

definition set_add :: "pyval list \<Rightarrow> pyval \<Rightarrow> pyval list" where
  "set_add s v = (if list_ex (\<lambda>x. py_key x = py_key v) s then s else s @ [v])"

text \<open>\<^verbatim>\<open>set(xs)\<close> adds the members in order and raises on the first that is not hashable.\<close>

definition py_set :: "pyval list \<Rightarrow> py_exn + pyval list" where
  "py_set xs =
     (case find (\<lambda>v. \<not> hashable v) xs of
        Some v \<Rightarrow> Inl (Exn TypeError (''unhashable type: '' @ quoted (py_type_name v)))
      | None \<Rightarrow> Inr (foldl set_add [] xs))"

definition py_union :: "pyval list \<Rightarrow> pyval list \<Rightarrow> pyval list" where
  "py_union s t = foldl set_add s t"

text \<open>
  \<^verbatim>\<open>sorted(s, reverse=True)\<close>. The sort compares members until their order is
  settled, so that it raises TypeError as soon as two members of the set cannot be
  ordered; a set of fewer than two members is not compared at all. Otherwise the answer
  is in descending order, equal members in their first order. The text of the error names
  the types of the two members the failed comparison had; which two these are depends on
  the order in which Python iterates the set, which is not fixed. The model names the
  first two members of its list that cannot be ordered.
\<close>

fun unorderable_pair :: "pyval list \<Rightarrow> (pyval \<times> pyval) option" where
  "unorderable_pair [] = None"
| "unorderable_pair (x # xs) =
     (case find (\<lambda>y. \<not> orderable x y) xs of
        Some y \<Rightarrow> Some (x, y)
      | None \<Rightarrow> unorderable_pair xs)"

definition not_supported :: "pyval \<Rightarrow> pyval \<Rightarrow> py_exn" where
  "not_supported x y =
     Exn TypeError (quoted ''<'' @ '' not supported between instances of ''
                    @ quoted (py_type_name x) @ '' and '' @ quoted (py_type_name y))"

definition py_sorted_reverse :: "pyval list \<Rightarrow> py_exn + pyval list" where
  "py_sorted_reverse xs =
     (case unorderable_pair xs of
        None \<Rightarrow> Inr (rev (sort_key py_key (rev xs)))
      | Some (x, y) \<Rightarrow> Inl (not_supported x y))"

section \<open>The REST endpoints\<close>

text \<open>
  What a view returns: the value handed to \<^verbatim>\<open>jsonify\<close> and the status code (200 when
  the view gives none). The encoding of the value as JSON text belongs to Flask and is
  outside the model, but for this: the encoder raises TypeError on a value it has no
  encoding for, which of the values here is an ObjectId (a datetime it renders as an HTTP
  date). In a document the handler stores, an ObjectId stands under \<^verbatim>\<open>_id\<close> only,
  which the listings project away and \<^verbatim>\<open>serialize\<close> converts. The sessions view
  hands the encoder the stored session values as they are, inside its \<^verbatim>\<open>try\<close>;
  \<open>jsonify\<close> below is that call.
\<close>

record response =
  body :: pyval
  status :: nat

definition ok_response :: "pyval \<Rightarrow> response" where
  "ok_response v = \<lparr>body = v, status = 200\<rparr>"

text \<open>\<^verbatim>\<open>return jsonify({"error": msg}), 500\<close>.\<close>

definition error_response :: "string \<Rightarrow> response" where
  "error_response msg = \<lparr>body = PDict [(''error'', PStr msg)], status = 500\<rparr>"

text \<open>
  The shape every view but \<^verbatim>\<open>health\<close> has: without a store the error answer, and
  otherwise the \<^verbatim>\<open>try\<close> block, whose \<^verbatim>\<open>except Exception as e\<close> turns any exception
  into the error answer with \<^verbatim>\<open>str(e)\<close>.
\<close>

definition guarded :: "mongo_db option \<Rightarrow> (mongo_db \<Rightarrow> py_exn + response) \<Rightarrow> response" where
  "guarded mdb try_block =
     (case mdb of
        None \<Rightarrow> error_response ''MongoDB not connected''
      | Some db \<Rightarrow>
          (case try_block db of
             Inl e \<Rightarrow> error_response (str_exn e)
           | Inr r \<Rightarrow> r))"

text \<open>\<^verbatim>\<open>serialize(doc)\<close>: lines 203 to 207.\<close>

definition serialize :: "pylib \<Rightarrow> doc \<Rightarrow> py_exn + doc" where
  "serialize L d =
     bind_exn (py_getitem (PDict d) ''_id'') (\<lambda>i.
       let d1 = AList.update ''_id'' (PStr (py_str L i)) d
       in (case map_of d1 ''received_at'' of
             None \<Rightarrow> Inr d1
           | Some v \<Rightarrow>
               (case v of
                  PDatetime t \<Rightarrow> Inr (AList.update ''received_at'' (PStr (isoformat L t)) d1)
                | _ \<Rightarrow> Inl (no_attribute v ''isoformat''))))"

text \<open>
  The loop \<^verbatim>\<open>for d in docs: d["received_at"] = d["received_at"].isoformat()\<close> of the two
  listings.
\<close>

definition iso_received :: "pylib \<Rightarrow> doc \<Rightarrow> py_exn + doc" where
  "iso_received L d =
     bind_exn (py_getitem (PDict d) ''received_at'') (\<lambda>v.
       case v of
         PDatetime t \<Rightarrow> Inr (AList.update ''received_at'' (PStr (isoformat L t)) d)
       | _ \<Rightarrow> Inl (no_attribute v ''isoformat''))"

fun iso_all :: "pylib \<Rightarrow> doc list \<Rightarrow> py_exn + doc list" where
  "iso_all L [] = Inr []"
| "iso_all L (d # ds) =
     bind_exn (iso_received L d) (\<lambda>d'.
     bind_exn (iso_all L ds) (\<lambda>ds'. Inr (d' # ds')))"

text \<open>\<^verbatim>\<open>/api/health\<close>; \<open>uri\<close> is \<^verbatim>\<open>MONGO_URI\<close> and \<open>is_set\<close> is \<^verbatim>\<open>mongo_ready.is_set()\<close>.\<close>

definition health :: "string \<Rightarrow> bool \<Rightarrow> mongo_db option \<Rightarrow> response" where
  "health uri is_set mdb =
     (let (mongo_status, mongo_details) =
            (case mdb of
               None \<Rightarrow> (''error'', ''mongo_db is None'')
             | Some db \<Rightarrow>
                 (case ping db of
                    Inl e \<Rightarrow> (''error'', str_exn e)
                  | Inr u \<Rightarrow> (''ok'', ''Connected to '' @ uri)))
      in ok_response (PDict [(''status'', PStr ''ok''),
                             (''mongo'', PStr mongo_status),
                             (''mongo_details'', PStr mongo_details),
                             (''mongo_ready'', PBool is_set)]))"

primrec contains_object_id :: "pyval \<Rightarrow> bool" where
  "contains_object_id PNone = False"
| "contains_object_id (PBool b) = False"
| "contains_object_id (PInt n) = False"
| "contains_object_id (PFloat r) = False"
| "contains_object_id (PStr s) = False"
| "contains_object_id (PList xs) = list_ex (\<lambda>b. b) (map contains_object_id xs)"
| "contains_object_id (PDict kvs) =
     list_ex snd (map (map_prod (\<lambda>k. k) contains_object_id) kvs)"
| "contains_object_id (PDatetime t) = False"
| "contains_object_id (PObjectId n) = True"

definition jsonify :: "pyval \<Rightarrow> py_exn + pyval" where
  "jsonify v =
     (if contains_object_id v
      then Inl (Exn TypeError ''Object of type ObjectId is not JSON serializable'')
      else Inr v)"

text \<open>\<^verbatim>\<open>/api/sessions\<close>.\<close>

definition sessions_try :: "mongo_db \<Rightarrow> py_exn + response" where
  "sessions_try db =
     bind_exn (distinct_values db Imu ''session'') (\<lambda>imu_s.
     bind_exn (distinct_values db Gps ''session'') (\<lambda>gps_s.
     bind_exn (py_set imu_s) (\<lambda>s1.
     bind_exn (py_set gps_s) (\<lambda>s2.
     bind_exn (py_sorted_reverse (py_union s1 s2)) (\<lambda>all_s.
     bind_exn (jsonify (PList all_s)) (\<lambda>j.
       Inr (ok_response j)))))))"

definition sessions :: "mongo_db option \<Rightarrow> response" where
  "sessions mdb = guarded mdb sessions_try"

text \<open>\<^verbatim>\<open>/api/imu\<close> and \<^verbatim>\<open>/api/gps\<close>.\<close>

definition imu_projection :: "(string \<times> int) list" where
  "imu_projection =
     [(''_id'', 0), (''received_at'', 1), (''ax'', 1), (''ay'', 1), (''az'', 1),
      (''gx'', 1), (''gy'', 1), (''gz'', 1), (''session'', 1), (''timestamp'', 1)]"

definition gps_projection :: "(string \<times> int) list" where
  "gps_projection =
     [(''_id'', 0), (''received_at'', 1), (''lat'', 1), (''lon'', 1),
      (''session'', 1), (''timestamp'', 1)]"

definition listing_try ::
  "pylib \<Rightarrow> int \<Rightarrow> args \<Rightarrow> coll \<Rightarrow> (string \<times> int) list \<Rightarrow> mongo_db \<Rightarrow> py_exn + response" where
  "listing_try L now a c proj db =
     bind_exn (build_query L now a) (\<lambda>(query, n).
     bind_exn (find_sorted db c query proj n) (\<lambda>docs.
     bind_exn (iso_all L docs) (\<lambda>ds.
       Inr (ok_response (PList (map PDict ds))))))"

definition get_imu :: "pylib \<Rightarrow> int \<Rightarrow> mongo_db option \<Rightarrow> args \<Rightarrow> response" where
  "get_imu L now mdb a = guarded mdb (listing_try L now a Imu imu_projection)"

definition get_gps :: "pylib \<Rightarrow> int \<Rightarrow> mongo_db option \<Rightarrow> args \<Rightarrow> response" where
  "get_gps L now mdb a = guarded mdb (listing_try L now a Gps gps_projection)"

text \<open>\<^verbatim>\<open>/api/imu/stats\<close>.\<close>

definition channel_stats :: "string \<Rightarrow> doc" where
  "channel_stats ch =
     [(ch @ ''_avg'', PDict [(''$avg'', PStr (''$'' @ ch))]),
      (ch @ ''_min'', PDict [(''$min'', PStr (''$'' @ ch))]),
      (ch @ ''_max'', PDict [(''$max'', PStr (''$'' @ ch))])]"

definition stats_pipeline :: "doc \<Rightarrow> pyval" where
  "stats_pipeline query =
     PList [PDict [(''$match'', PDict query)],
            PDict [(''$group'',
                    PDict ([(''_id'', PNone), (''count'', PDict [(''$sum'', PInt 1)])]
                           @ concat (map channel_stats
                                       [''ax'', ''ay'', ''az'', ''gx'', ''gy'', ''gz''])))]]"

definition imu_stats_try :: "pylib \<Rightarrow> int \<Rightarrow> args \<Rightarrow> mongo_db \<Rightarrow> py_exn + response" where
  "imu_stats_try L now a db =
     bind_exn (build_query L now a) (\<lambda>(query, n).
     bind_exn (aggregate db Imu (stats_pipeline query)) (\<lambda>result.
       Inr (ok_response (case result of
                           [] \<Rightarrow> PDict []
                         | r # rs \<Rightarrow> PDict (AList.delete ''_id'' r)))))"

definition imu_stats :: "pylib \<Rightarrow> int \<Rightarrow> mongo_db option \<Rightarrow> args \<Rightarrow> response" where
  "imu_stats L now mdb a = guarded mdb (imu_stats_try L now a)"

text \<open>
  \<^verbatim>\<open>/api/gps/latest\<close>. The view does not read the request arguments. \<^verbatim>\<open>not doc\<close> is
  true of None and of an empty dict.
\<close>

definition gps_latest_try :: "pylib \<Rightarrow> mongo_db \<Rightarrow> py_exn + response" where
  "gps_latest_try L db =
     bind_exn (find_one_latest db Gps) (\<lambda>r.
       case r of
         None \<Rightarrow> Inr (ok_response PNone)
       | Some d \<Rightarrow>
           if d = [] then Inr (ok_response PNone)
           else bind_exn (serialize L d) (\<lambda>s. Inr (ok_response (PDict s))))"

definition gps_latest :: "pylib \<Rightarrow> mongo_db option \<Rightarrow> response" where
  "gps_latest L mdb = guarded mdb (gps_latest_try L)"

text \<open>\<^verbatim>\<open>/api/summary\<close>.\<close>

definition summary_try :: "pylib \<Rightarrow> int \<Rightarrow> args \<Rightarrow> mongo_db \<Rightarrow> py_exn + response" where
  "summary_try L now a db =
     bind_exn (build_query L now a) (\<lambda>(query, n).
     bind_exn (count_documents db Imu query) (\<lambda>imu_count.
     bind_exn (count_documents db Gps query) (\<lambda>gps_count.
       Inr (ok_response (PDict [(''imu_count'', PInt (int imu_count)),
                                (''gps_count'', PInt (int gps_count))])))))"

definition summary :: "pylib \<Rightarrow> int \<Rightarrow> mongo_db option \<Rightarrow> args \<Rightarrow> response" where
  "summary L now mdb a = guarded mdb (summary_try L now a)"

text \<open>
  \<^verbatim>\<open>/api/days\<close>. The format \<^verbatim>\<open>{v:04d}\<close> pads the decimal digits of an int with zeros
  to the width, the sign counting; on another type of value it raises (a datetime
  answers the format text itself, through \<^verbatim>\<open>strftime\<close>).
\<close>

fun decimal :: "nat \<Rightarrow> string" where
  "decimal n =
     (if n < 10 then [char_of (48 + n)]
      else decimal (n div 10) @ [char_of (48 + n mod 10)])"

definition zero_padded :: "nat \<Rightarrow> int \<Rightarrow> string" where
  "zero_padded w n =
     (if n < 0
      then CHR ''-'' # replicate (w - 1 - length (decimal (nat (- n)))) CHR ''0'' @ decimal (nat (- n))
      else replicate (w - length (decimal (nat n))) CHR ''0'' @ decimal (nat n))"

definition format_d :: "nat \<Rightarrow> pyval \<Rightarrow> py_exn + string" where
  "format_d w v =
     (case v of
        PInt n \<Rightarrow> Inr (zero_padded w n)
      | PBool b \<Rightarrow> Inr (zero_padded w (of_bool b))
      | PFloat r \<Rightarrow> Inl (Exn ValueError ''Unknown format code d for object of type float'')
      | PStr s \<Rightarrow> Inl (Exn ValueError ''Unknown format code d for object of type str'')
      | PDatetime t \<Rightarrow> Inr (CHR ''0'' # decimal w @ ''d'')
      | _ \<Rightarrow> Inl (Exn TypeError (''unsupported format string passed to ''
                                   @ py_type_name v @ ''.__format__'')))"

definition day_string :: "doc \<Rightarrow> py_exn + string" where
  "day_string d =
     bind_exn (py_getitem (PDict d) ''_id'') (\<lambda>v.
     bind_exn (bind_exn (py_getitem v ''y'') (format_d 4)) (\<lambda>y.
     bind_exn (bind_exn (py_getitem v ''m'') (format_d 2)) (\<lambda>m.
     bind_exn (bind_exn (py_getitem v ''d'') (format_d 2)) (\<lambda>dd.
       Inr (y @ ''-'' @ m @ ''-'' @ dd)))))"

fun day_strings :: "doc list \<Rightarrow> py_exn + string list" where
  "day_strings [] = Inr []"
| "day_strings (d # ds) =
     bind_exn (day_string d) (\<lambda>s.
     bind_exn (day_strings ds) (\<lambda>ss. Inr (s # ss)))"

definition days_pipeline :: pyval where
  "days_pipeline =
     PList [PDict [(''$group'',
                    PDict [(''_id'',
                            PDict [(''y'', PDict [(''$year'', PStr ''$received_at'')]),
                                   (''m'', PDict [(''$month'', PStr ''$received_at'')]),
                                   (''d'', PDict [(''$dayOfMonth'', PStr ''$received_at'')])])])],
            PDict [(''$sort'', PDict [(''_id'', PInt (- 1))])],
            PDict [(''$limit'', PInt 90)]]"

definition available_days_try :: "mongo_db \<Rightarrow> py_exn + response" where
  "available_days_try db =
     bind_exn (aggregate db Imu days_pipeline) (\<lambda>days_imu.
     bind_exn (aggregate db Gps days_pipeline) (\<lambda>days_gps.
     bind_exn (day_strings (days_imu @ days_gps)) (\<lambda>days.
       Inr (ok_response (PList (map PStr (rev (sort (remdups days)))))))))"

definition available_days :: "mongo_db option \<Rightarrow> response" where
  "available_days mdb = guarded mdb available_days_try"

text \<open>
  The routes of the query API. A request is its endpoint and its arguments; what else a
  view reads (the library, \<^verbatim>\<open>MONGO_URI\<close>, the readiness flag, the clock, the store) is
  the same for all of them.
\<close>

datatype endpoint =
  Health | Sessions | GetImu | ImuStats | GetGps | GpsLatest | Summary | AvailableDays

fun handle ::
  "pylib \<Rightarrow> string \<Rightarrow> bool \<Rightarrow> int \<Rightarrow> mongo_db option \<Rightarrow> endpoint \<Rightarrow> args \<Rightarrow> response" where
  "handle L uri is_set now mdb Health a = health uri is_set mdb"
| "handle L uri is_set now mdb Sessions a = sessions mdb"
| "handle L uri is_set now mdb GetImu a = get_imu L now mdb a"
| "handle L uri is_set now mdb ImuStats a = imu_stats L now mdb a"
| "handle L uri is_set now mdb GetGps a = get_gps L now mdb a"
| "handle L uri is_set now mdb GpsLatest a = gps_latest L mdb"
| "handle L uri is_set now mdb Summary a = summary L now mdb a"
| "handle L uri is_set now mdb AvailableDays a = available_days mdb"

section \<open>Predicates of the statements, and sample data\<close>

text \<open>\<open>lookup2 p k1 k2\<close> is \<^verbatim>\<open>p[k1][k2]\<close> when \<open>p\<close> is an object that holds an object
  under \<open>k1\<close> that holds \<open>k2\<close>; None when any of this is missing.\<close>

definition lookup2 :: "pyval \<Rightarrow> string \<Rightarrow> string \<Rightarrow> pyval option" where
  "lookup2 p k1 k2 =
     (case p of
        PDict kvs \<Rightarrow> (case map_of kvs k1 of Some (PDict sub) \<Rightarrow> map_of sub k2 | _ \<Rightarrow> None)
      | _ \<Rightarrow> None)"

text \<open>The payload has no \<^verbatim>\<open>gyro\<close> entry, or the entry is an object.\<close>

definition gyro_absent_or_object :: "pyval \<Rightarrow> bool" where
  "gyro_absent_or_object p =
     (case p of
        PDict kvs \<Rightarrow> (case map_of kvs ''gyro'' of None \<Rightarrow> True | Some (PDict g) \<Rightarrow> True | _ \<Rightarrow> False)
      | _ \<Rightarrow> False)"

text \<open>The \<^verbatim>\<open>gyro\<close> entry of the payload, None when it has none.\<close>

definition gyro_entry :: "pyval \<Rightarrow> pyval option" where
  "gyro_entry p = (case p of PDict kvs \<Rightarrow> map_of kvs ''gyro'' | _ \<Rightarrow> None)"

text \<open>A storage failure as an endpoint meets it: a driver call the view issues raises.\<close>

fun storage_fails :: "mongo_db \<Rightarrow> endpoint \<Rightarrow> bool" where
  "storage_fails db Health = (raises db Ping \<noteq> None)"
| "storage_fails db Sessions =
     (raises db (Distinct Imu ''session'') \<noteq> None \<or> raises db (Distinct Gps ''session'') \<noteq> None)"
| "storage_fails db GetImu = (\<forall>q. raises db (Find Imu q) \<noteq> None)"
| "storage_fails db ImuStats = (\<forall>p. raises db (Aggregate Imu p) \<noteq> None)"
| "storage_fails db GetGps = (\<forall>q. raises db (Find Gps q) \<noteq> None)"
| "storage_fails db GpsLatest = (raises db (FindOne Gps) \<noteq> None)"
| "storage_fails db Summary =
     ((\<forall>q. raises db (CountDocuments Imu q) \<noteq> None) \<or> (\<forall>q. raises db (CountDocuments Gps q) \<noteq> None))"
| "storage_fails db AvailableDays =
     (raises db (Aggregate Imu days_pipeline) \<noteq> None \<or> raises db (Aggregate Gps days_pipeline) \<noteq> None)"

text \<open>
  A from or to instant of the request is malformed: the parameter is given, not empty,
  and \<^verbatim>\<open>datetime.fromisoformat\<close> rejects it.
\<close>

definition malformed_instant :: "pylib \<Rightarrow> args \<Rightarrow> string \<Rightarrow> bool" where
  "malformed_instant L a k =
     (case truthy_arg a k of None \<Rightarrow> False | Some s \<Rightarrow> isl (fromisoformat L (replace_Z s)))"

text \<open>The request without the parameter \<open>k\<close>.\<close>

definition remove_arg :: "string \<Rightarrow> args \<Rightarrow> args" where
  "remove_arg k a = filter (\<lambda>kv. fst kv \<noteq> k) a"

text \<open>A client error is a status of the class 4xx.\<close>

definition client_error_status :: "nat \<Rightarrow> bool" where
  "client_error_status s = (400 \<le> s \<and> s < 500)"

text \<open>The error object of the views: \<^verbatim>\<open>{"error": text}\<close> and nothing else.\<close>

definition is_error_object :: "pyval \<Rightarrow> bool" where
  "is_error_object v =
     (case v of
        PDict kvs \<Rightarrow> (case kvs of [(k, PStr msg)] \<Rightarrow> k = ''error'' | _ \<Rightarrow> False)
      | _ \<Rightarrow> False)"

text \<open>
  A session value that JSON has a scalar for and the handler can have stored: null, a
  boolean, a number or a string.
\<close>

definition json_scalar :: "pyval \<Rightarrow> bool" where
  "json_scalar v =
     (case v of
        PNone \<Rightarrow> True | PBool b \<Rightarrow> True | PInt n \<Rightarrow> True | PFloat r \<Rightarrow> True | PStr s \<Rightarrow> True
      | _ \<Rightarrow> False)"

text \<open>
  Sample data for the concrete instances below: a library whose decoder answers \<open>v\<close>,
  whose \<^verbatim>\<open>int\<close> reads the text 7, whose \<^verbatim>\<open>float\<close> reads the text 10, whose
  \<^verbatim>\<open>timedelta\<close> takes ten minutes, whose \<^verbatim>\<open>fromisoformat\<close> reads the first
  instant of 2024, and whose \<^verbatim>\<open>isoformat\<close> and \<^verbatim>\<open>str\<close> print the second and the
  first minute of 1970 and the ObjectIds 0 and 1; an empty store where no call raises; a
  store where every call raises.
\<close>

definition sample_lib :: "pyval \<Rightarrow> pylib" where
  "sample_lib v =
     \<lparr>json_loads = (\<lambda>s. Inr v),
      py_int = (\<lambda>s. if s = ''7'' then Inr 7
                     else Inl (''invalid literal for int() with base 10: '' @ quoted s)),
      py_float = (\<lambda>s. if s = ''10'' then Inr 10
                       else Inl (Exn ValueError (''could not convert string to float: '' @ quoted s))),
      timedelta_minutes = (\<lambda>f. if f = 10 then Inr 600000000
                                else Inl (Exn OverflowError ''days out of range'')),
      fromisoformat = (\<lambda>s. if s = ''2024-01-01T00:00:00+00:00'' then Inr 1704067200000000
                            else Inl (Exn ValueError (''Invalid isoformat string: '' @ quoted s))),
      isoformat = (\<lambda>t. if t = 120000000 then ''1970-01-01T00:02:00''
                        else ''1970-01-01T00:01:00''),
      py_str = (\<lambda>v. case v of
                       PObjectId n \<Rightarrow> (if n = 1 then ''000000000000000000000001''
                                       else ''000000000000000000000000'')
                     | _ \<Rightarrow> py_type_name v)\<rparr>"

definition empty_db :: mongo_db where
  "empty_db = \<lparr>imu = [], gps = [], next_oid = 0, raises = (\<lambda>c. None),
               aggregate_answer = (\<lambda>c p. [])\<rparr>"

definition down_db :: mongo_db where
  "down_db = empty_db\<lparr>raises := (\<lambda>c. Some (Exn PyMongoError ''connection refused''))\<rparr>"

definition imu_message :: mqtt_msg where
  "imu_message = \<lparr>retain = 0, topic = ''/mobile/imu'', payload = []\<rparr>"

text \<open>A store with two GPS fixes received one minute apart.\<close>

definition two_fixes_db :: mongo_db where
  "two_fixes_db =
     empty_db\<lparr>gps := [[(''_id'', PObjectId 0), (''timestamp'', PInt 1), (''session'', PInt 7),
                         (''lat'', PFloat 1), (''lon'', PFloat 2),
                         (''received_at'', PDatetime 60000000)],
                        [(''_id'', PObjectId 1), (''timestamp'', PInt 2), (''session'', PInt 7),
                         (''lat'', PFloat 3), (''lon'', PFloat 4),
                         (''received_at'', PDatetime 120000000)]],
               next_oid := 2\<rparr>"

text \<open>
  A store with the sessions 1 and 2 among the IMU records and 2 and 3 among the GPS
  records; and a store with session 1 among the IMU records and a session named
  \<^verbatim>\<open>a\<close> among the GPS records.
\<close>

definition sessions_db :: mongo_db where
  "sessions_db =
     empty_db\<lparr>imu := [[(''_id'', PObjectId 0), (''session'', PInt 1)],
                        [(''_id'', PObjectId 1), (''session'', PInt 2)],
                        [(''_id'', PObjectId 2), (''session'', PInt 1)]],
               gps := [[(''_id'', PObjectId 3), (''session'', PInt 2)],
                        [(''_id'', PObjectId 4), (''session'', PInt 3)]],
               next_oid := 5\<rparr>"

definition mixed_sessions_db :: mongo_db where
  "mixed_sessions_db =
     empty_db\<lparr>imu := [[(''_id'', PObjectId 0), (''session'', PInt 1)]],
               gps := [[(''_id'', PObjectId 1), (''session'', PStr ''a'')]],
               next_oid := 2\<rparr>"

section \<open>Properties of the message handler\<close>

lemma imu_doc_present:
  assumes "lookup2 p ''acc'' ''x'' = Some x" "lookup2 p ''acc'' ''y'' = Some y"
    "lookup2 p ''acc'' ''z'' = Some z" "gyro_absent_or_object p"
  shows "imu_doc p t =
     Inr [(''timestamp'', case py_get p ''timestamp'' PNone of Inr v \<Rightarrow> v | Inl e \<Rightarrow> PNone),
          (''session'', case py_get p ''session'' PNone of Inr v \<Rightarrow> v | Inl e \<Rightarrow> PNone),
          (''ax'', x), (''ay'', y), (''az'', z),
          (''gx'', case lookup2 p ''gyro'' ''x'' of None \<Rightarrow> PFloat 0 | Some v \<Rightarrow> v),
          (''gy'', case lookup2 p ''gyro'' ''y'' of None \<Rightarrow> PFloat 0 | Some v \<Rightarrow> v),
          (''gz'', case lookup2 p ''gyro'' ''z'' of None \<Rightarrow> PFloat 0 | Some v \<Rightarrow> v),
          (''received_at'', PDatetime t)]"
  using assms
  by (auto simp: imu_doc_def lookup2_def gyro_absent_or_object_def bind_exn_def
      split: pyval.splits option.splits)

lemma imu_doc_absent:
  assumes "lookup2 p ''acc'' ''x'' = None \<or> lookup2 p ''acc'' ''y'' = None \<or> lookup2 p ''acc'' ''z'' = None"
  shows "isl (imu_doc p t)"
  using assms
  by (cases p) (auto simp: imu_doc_def lookup2_def bind_exn_def
      split: pyval.splits option.splits)

lemma lookup2_is_dict: "lookup2 p k1 k2 = Some v \<Longrightarrow> \<exists>kvs. p = PDict kvs"
  by (cases p) (simp_all add: lookup2_def)

lemma except_log_cases:
  "(\<exists>msg. except_log e = MissingKey msg) \<or> (\<exists>msg. except_log e = MessageError msg)"
proof (cases e)
  case (Exn c msg)
  then show ?thesis by (cases c) simp_all
qed

lemma imu_message_saved:
  assumes "retain m \<noteq> 1" and "ready" and "topic m = MQTT_TOPIC_IMU"
    and "json_loads L (payload m) = Inr p"
    and "lookup2 p ''acc'' ''x'' = Some x" and "lookup2 p ''acc'' ''y'' = Some y"
    and "lookup2 p ''acc'' ''z'' = Some z" and "gyro_absent_or_object p"
    and "\<forall>d. raises db (InsertOne Imu d) = None"
  shows "on_message L ready now (Some db) m =
     (Some (db\<lparr>imu := imu db @
              [[(''_id'', PObjectId (next_oid db)),
                (''timestamp'', case py_get p ''timestamp'' PNone of Inr v \<Rightarrow> v | Inl e \<Rightarrow> PNone),
                (''session'', case py_get p ''session'' PNone of Inr v \<Rightarrow> v | Inl e \<Rightarrow> PNone),
                (''ax'', x), (''ay'', y), (''az'', z),
                (''gx'', case lookup2 p ''gyro'' ''x'' of None \<Rightarrow> PFloat 0 | Some v \<Rightarrow> v),
                (''gy'', case lookup2 p ''gyro'' ''y'' of None \<Rightarrow> PFloat 0 | Some v \<Rightarrow> v),
                (''gz'', case lookup2 p ''gyro'' ''z'' of None \<Rightarrow> PFloat 0 | Some v \<Rightarrow> v),
                (''received_at'', PDatetime now)]],
            next_oid := Suc (next_oid db)\<rparr>),
      [ImuSaved (case py_get p ''session'' PNone of Inr v \<Rightarrow> v | Inl e \<Rightarrow> PNone)
                (PObjectId (next_oid db))])"
proof -
  obtain kvs where p: "p = PDict kvs"
    using lookup2_is_dict assms(5) by blast
  have d: "imu_doc p now = Inr [(''timestamp'', case py_get p ''timestamp'' PNone of Inr v \<Rightarrow> v | Inl e \<Rightarrow> PNone),
          (''session'', case py_get p ''session'' PNone of Inr v \<Rightarrow> v | Inl e \<Rightarrow> PNone),
          (''ax'', x), (''ay'', y), (''az'', z),
          (''gx'', case lookup2 p ''gyro'' ''x'' of None \<Rightarrow> PFloat 0 | Some v \<Rightarrow> v),
          (''gy'', case lookup2 p ''gyro'' ''y'' of None \<Rightarrow> PFloat 0 | Some v \<Rightarrow> v),
          (''gz'', case lookup2 p ''gyro'' ''z'' of None \<Rightarrow> PFloat 0 | Some v \<Rightarrow> v),
          (''received_at'', PDatetime now)]"
    using assms(5-8) by (rule imu_doc_present)
  show ?thesis
    using assms(1-4,9) d unfolding p
    by (simp add: on_message_def insert_one_def)
qed

lemma imu_message_dropped:
  assumes "retain m \<noteq> 1" and "ready" and "topic m = MQTT_TOPIC_IMU"
    and "json_loads L (payload m) = Inr p"
    and "lookup2 p ''acc'' ''x'' = None \<or> lookup2 p ''acc'' ''y'' = None \<or> lookup2 p ''acc'' ''z'' = None"
  shows "fst (on_message L ready now mdb m) = mdb"
    and "snd (on_message L ready now mdb m) = [DbIsNone]
       \<or> (\<exists>msg. snd (on_message L ready now mdb m) = [MissingKey msg])
       \<or> (\<exists>msg. snd (on_message L ready now mdb m) = [MessageError msg])"
proof -
  obtain e where e: "imu_doc p now = Inl e"
    using imu_doc_absent [OF assms(5), of now] by (cases "imu_doc p now") simp_all
  show "fst (on_message L ready now mdb m) = mdb"
    using assms(1-4) by (cases mdb) (simp_all add: on_message_def e)
  show "snd (on_message L ready now mdb m) = [DbIsNone]
       \<or> (\<exists>msg. snd (on_message L ready now mdb m) = [MissingKey msg])
       \<or> (\<exists>msg. snd (on_message L ready now mdb m) = [MessageError msg])"
    using assms(1-4) except_log_cases [of e]
    by (cases mdb) (auto simp add: on_message_def e)
qed

text \<open>
  C8: a message delivered with the retained flag set is discarded before anything else
  happens. Whatever the payload, the topic, the readiness wait and the store are, the
  store comes back as it was (no record in either collection) and the only line printed
  is the one that says the message is ignored.
\<close>

theorem retained_never_persisted:
  "retain m = 1 \<Longrightarrow> on_message L ready now mdb m = (mdb, [IgnoringRetained])"
  by (simp add: on_message_def)

text \<open>The instance: a retained message on the IMU topic with a complete payload.\<close>

theorem retained_never_persisted_witness:
  "retain (imu_message\<lparr>retain := 1\<rparr>) = 1
   \<and> on_message (sample_lib (PDict [(''acc'', PDict [(''x'', PInt 1), (''y'', PInt 2), (''z'', PInt 3)])]))
        True 1700000000000000 (Some empty_db) (imu_message\<lparr>retain := 1\<rparr>)
      = (Some empty_db, [IgnoringRetained])"
  using retained_never_persisted [of "imu_message\<lparr>retain := 1\<rparr>"
      "sample_lib (PDict [(''acc'', PDict [(''x'', PInt 1), (''y'', PInt 2), (''z'', PInt 3)])])"
      True 1700000000000000 "Some empty_db"]
  by (simp add: imu_message_def)

text \<open>
  C1, as amended: for a message on the IMU topic that is not retained, passes the
  readiness wait and whose payload decodes as JSON to \<open>p\<close>. If \<open>p\<close> holds
  \<^verbatim>\<open>acc.x\<close>, \<^verbatim>\<open>acc.y\<close> and \<^verbatim>\<open>acc.z\<close>, its \<^verbatim>\<open>gyro\<close> entry is absent or an
  object, the store is connected and the insert does not raise, then exactly one record
  is appended to the imu collection (the gps collection stays as it is), with
  \<^verbatim>\<open>received_at\<close> the instant the server observed, and one line reports the save. If
  one of the three axes is absent, the store comes back as it was and exactly one line
  is printed, which reports the drop.
\<close>

theorem imu_message_one_record_or_none:
  assumes "retain m \<noteq> 1" and "ready" and "topic m = MQTT_TOPIC_IMU"
    and "json_loads L (payload m) = Inr p"
  shows "(lookup2 p ''acc'' ''x'' \<noteq> None \<and> lookup2 p ''acc'' ''y'' \<noteq> None
          \<and> lookup2 p ''acc'' ''z'' \<noteq> None \<and> gyro_absent_or_object p
          \<and> (\<forall>d. raises db (InsertOne Imu d) = None)
          \<longrightarrow> (\<exists>d s i. on_message L ready now (Some db) m =
                    (Some (db\<lparr>imu := imu db @ [d], next_oid := Suc (next_oid db)\<rparr>), [ImuSaved s i])
                  \<and> map_of d ''received_at'' = Some (PDatetime now)))
       \<and> (lookup2 p ''acc'' ''x'' = None \<or> lookup2 p ''acc'' ''y'' = None
          \<or> lookup2 p ''acc'' ''z'' = None
          \<longrightarrow> fst (on_message L ready now mdb m) = mdb
              \<and> (snd (on_message L ready now mdb m) = [DbIsNone]
                 \<or> (\<exists>msg. snd (on_message L ready now mdb m) = [MissingKey msg])
                 \<or> (\<exists>msg. snd (on_message L ready now mdb m) = [MessageError msg])))"
proof (intro conjI impI)
  assume h: "lookup2 p ''acc'' ''x'' \<noteq> None \<and> lookup2 p ''acc'' ''y'' \<noteq> None
          \<and> lookup2 p ''acc'' ''z'' \<noteq> None \<and> gyro_absent_or_object p
          \<and> (\<forall>d. raises db (InsertOne Imu d) = None)"
  then obtain x y z where xyz: "lookup2 p ''acc'' ''x'' = Some x"
      "lookup2 p ''acc'' ''y'' = Some y" "lookup2 p ''acc'' ''z'' = Some z"
    by auto
  from h have g: "gyro_absent_or_object p" and r: "\<forall>d. raises db (InsertOne Imu d) = None"
    by simp_all
  show "\<exists>d s i. on_message L ready now (Some db) m =
                    (Some (db\<lparr>imu := imu db @ [d], next_oid := Suc (next_oid db)\<rparr>), [ImuSaved s i])
                  \<and> map_of d ''received_at'' = Some (PDatetime now)"
    unfolding imu_message_saved [OF assms xyz g r] by (intro exI conjI, rule refl) simp
next
  assume a: "lookup2 p ''acc'' ''x'' = None \<or> lookup2 p ''acc'' ''y'' = None
          \<or> lookup2 p ''acc'' ''z'' = None"
  show "fst (on_message L ready now mdb m) = mdb"
    using imu_message_dropped(1) [OF assms a] .
  show "snd (on_message L ready now mdb m) = [DbIsNone]
                 \<or> (\<exists>msg. snd (on_message L ready now mdb m) = [MissingKey msg])
                 \<or> (\<exists>msg. snd (on_message L ready now mdb m) = [MessageError msg])"
    using imu_message_dropped(2) [OF assms a] .
qed

text \<open>The definitions a concrete instance of the handler unfolds.\<close>

lemmas eval_defs = on_message_def imu_doc_def bind_exn_def insert_one_def sample_lib_def
  empty_db_def imu_message_def MQTT_TOPIC_IMU_def MQTT_TOPIC_GPS_def lookup2_def
  gyro_absent_or_object_def quoted_def no_attribute_def

text \<open>
  Two instances: a payload with the three axes and no gyro, which is stored, and the same
  payload without \<^verbatim>\<open>acc.z\<close>, which is dropped with the line for a missing key.
\<close>

theorem imu_message_one_record_or_none_witness:
  "on_message
     (sample_lib (PDict [(''timestamp'', PInt 111), (''session'', PInt 7),
                         (''acc'', PDict [(''x'', PFloat 1), (''y'', PFloat 2), (''z'', PFloat 3)])]))
     True 1700000000000000 (Some empty_db) imu_message
   = (Some (empty_db\<lparr>imu := [[(''_id'', PObjectId 0), (''timestamp'', PInt 111),
                                (''session'', PInt 7),
                                (''ax'', PFloat 1), (''ay'', PFloat 2), (''az'', PFloat 3),
                                (''gx'', PFloat 0), (''gy'', PFloat 0), (''gz'', PFloat 0),
                                (''received_at'', PDatetime 1700000000000000)]],
                      next_oid := 1\<rparr>),
      [ImuSaved (PInt 7) (PObjectId 0)])
   \<and> on_message
     (sample_lib (PDict [(''timestamp'', PInt 111), (''session'', PInt 7),
                         (''acc'', PDict [(''x'', PFloat 1), (''y'', PFloat 2)])]))
     True 1700000000000000 (Some empty_db) imu_message
   = (Some empty_db, [MissingKey (quoted ''z'')])"
  using imu_message_one_record_or_none
    [where m = imu_message and ready = True and now = 1700000000000000 and db = empty_db
       and mdb = "Some empty_db"
       and p = "PDict [(''timestamp'', PInt 111), (''session'', PInt 7),
                       (''acc'', PDict [(''x'', PFloat 1), (''y'', PFloat 2), (''z'', PFloat 3)])]"
       and L = "sample_lib (PDict [(''timestamp'', PInt 111), (''session'', PInt 7),
                       (''acc'', PDict [(''x'', PFloat 1), (''y'', PFloat 2), (''z'', PFloat 3)])])"]
    imu_message_one_record_or_none
    [where m = imu_message and ready = True and now = 1700000000000000 and db = empty_db
       and mdb = "Some empty_db"
       and p = "PDict [(''timestamp'', PInt 111), (''session'', PInt 7),
                       (''acc'', PDict [(''x'', PFloat 1), (''y'', PFloat 2)])]"
       and L = "sample_lib (PDict [(''timestamp'', PInt 111), (''session'', PInt 7),
                       (''acc'', PDict [(''x'', PFloat 1), (''y'', PFloat 2)])])"]
  by (simp add: eval_defs)

text \<open>
  C1 as it was stated fails: the payload
  \<^verbatim>\<open>{"acc": {"x": 1, "y": 2, "z": 3}, "gyro": null}\<close> holds the three axes, and
  \<^verbatim>\<open>payload.get("gyro", {})\<close> answers None, on which \<^verbatim>\<open>.get\<close> raises AttributeError;
  the general handler prints the error and nothing is inserted.
\<close>

theorem imu_gyro_null_counterexample:
  "lookup2 (PDict [(''acc'', PDict [(''x'', PInt 1), (''y'', PInt 2), (''z'', PInt 3)]),
                   (''gyro'', PNone)]) ''acc'' ''x'' = Some (PInt 1)
   \<and> lookup2 (PDict [(''acc'', PDict [(''x'', PInt 1), (''y'', PInt 2), (''z'', PInt 3)]),
                   (''gyro'', PNone)]) ''acc'' ''y'' = Some (PInt 2)
   \<and> lookup2 (PDict [(''acc'', PDict [(''x'', PInt 1), (''y'', PInt 2), (''z'', PInt 3)]),
                   (''gyro'', PNone)]) ''acc'' ''z'' = Some (PInt 3)
   \<and> on_message
        (sample_lib (PDict [(''acc'', PDict [(''x'', PInt 1), (''y'', PInt 2), (''z'', PInt 3)]),
                            (''gyro'', PNone)]))
        True 1700000000000000 (Some empty_db) imu_message
      = (Some empty_db, [MessageError (str_exn (no_attribute PNone ''get''))])"
  by (simp add: eval_defs)

lemma imu_doc_gyro_not_object:
  assumes "lookup2 p ''acc'' ''x'' = Some x" "lookup2 p ''acc'' ''y'' = Some y"
    "lookup2 p ''acc'' ''z'' = Some z" "\<not> gyro_absent_or_object p"
  shows "\<exists>v. gyro_entry p = Some v \<and> imu_doc p t = Inl (no_attribute v ''get'')"
proof -
  obtain kvs where p: "p = PDict kvs"
    using lookup2_is_dict assms(1) by blast
  obtain v where v: "map_of kvs ''gyro'' = Some v" and n: "\<forall>g. v \<noteq> PDict g"
    using assms(4) unfolding p
    by (auto simp: gyro_absent_or_object_def split: option.splits pyval.splits)
  have g: "py_get v ''x'' (PFloat 0) = Inl (no_attribute v ''get'')"
    using n by (cases v) simp_all
  have "imu_doc p t = Inl (no_attribute v ''get'')"
    using assms(1-3) v g unfolding p
    by (auto simp: imu_doc_def lookup2_def bind_exn_def split: pyval.splits option.splits)
  then show ?thesis
    unfolding p by (simp add: gyro_entry_def v)
qed

text \<open>
  C9, as amended: an IMU payload that holds \<^verbatim>\<open>acc.x\<close>, \<^verbatim>\<open>acc.y\<close> and \<^verbatim>\<open>acc.z\<close>,
  on a message that is not retained and passes the wait, with the store connected. If the
  payload has no \<^verbatim>\<open>gyro\<close> entry, or a \<^verbatim>\<open>gyro\<close> object that lacks some of its fields,
  and the insert does not raise, the record is stored, and each of \<^verbatim>\<open>gx\<close>, \<^verbatim>\<open>gy\<close>,
  \<^verbatim>\<open>gz\<close> whose field is missing is the float 0.0. If the payload has a \<^verbatim>\<open>gyro\<close>
  entry that is not an object (null, a number, a string, a list), the record is rejected:
  \<^verbatim>\<open>.get\<close> raises AttributeError on the entry, the store stays as it was and the one
  line printed is the error.
\<close>

theorem missing_gyro_defaults_to_zero:
  assumes "retain m \<noteq> 1" and "ready" and "topic m = MQTT_TOPIC_IMU"
    and "json_loads L (payload m) = Inr p"
    and "lookup2 p ''acc'' ''x'' \<noteq> None" and "lookup2 p ''acc'' ''y'' \<noteq> None"
    and "lookup2 p ''acc'' ''z'' \<noteq> None"
  shows "(gyro_absent_or_object p \<and> (\<forall>d. raises db (InsertOne Imu d) = None)
          \<longrightarrow> (\<exists>d s i. on_message L ready now (Some db) m =
                  (Some (db\<lparr>imu := imu db @ [d], next_oid := Suc (next_oid db)\<rparr>), [ImuSaved s i])
                \<and> (lookup2 p ''gyro'' ''x'' = None \<longrightarrow> map_of d ''gx'' = Some (PFloat 0))
                \<and> (lookup2 p ''gyro'' ''y'' = None \<longrightarrow> map_of d ''gy'' = Some (PFloat 0))
                \<and> (lookup2 p ''gyro'' ''z'' = None \<longrightarrow> map_of d ''gz'' = Some (PFloat 0))))
       \<and> (\<not> gyro_absent_or_object p
          \<longrightarrow> (\<exists>v. gyro_entry p = Some v
                \<and> on_message L ready now (Some db) m =
                    (Some db, [MessageError (str_exn (no_attribute v ''get''))])))"
proof (intro conjI impI)
  obtain x y z where xyz: "lookup2 p ''acc'' ''x'' = Some x"
      "lookup2 p ''acc'' ''y'' = Some y" "lookup2 p ''acc'' ''z'' = Some z"
    using assms(5-7) by auto
  {
    assume h: "gyro_absent_or_object p \<and> (\<forall>d. raises db (InsertOne Imu d) = None)"
    then have g: "gyro_absent_or_object p" and r: "\<forall>d. raises db (InsertOne Imu d) = None"
      by simp_all
    show "\<exists>d s i. on_message L ready now (Some db) m =
                  (Some (db\<lparr>imu := imu db @ [d], next_oid := Suc (next_oid db)\<rparr>), [ImuSaved s i])
                \<and> (lookup2 p ''gyro'' ''x'' = None \<longrightarrow> map_of d ''gx'' = Some (PFloat 0))
                \<and> (lookup2 p ''gyro'' ''y'' = None \<longrightarrow> map_of d ''gy'' = Some (PFloat 0))
                \<and> (lookup2 p ''gyro'' ''z'' = None \<longrightarrow> map_of d ''gz'' = Some (PFloat 0))"
      unfolding imu_message_saved [OF assms(1-4) xyz g r]
      by (intro exI conjI, rule refl) simp_all
  }
  {
    assume n: "\<not> gyro_absent_or_object p"
    obtain v where v: "gyro_entry p = Some v" and d: "imu_doc p now = Inl (no_attribute v ''get'')"
      using imu_doc_gyro_not_object [OF xyz n, of now] by blast
    have "on_message L ready now (Some db) m =
            (Some db, [MessageError (str_exn (no_attribute v ''get''))])"
      using assms(1-4) d by (simp add: on_message_def no_attribute_def)
    with v show "\<exists>v. gyro_entry p = Some v
                \<and> on_message L ready now (Some db) m =
                    (Some db, [MessageError (str_exn (no_attribute v ''get''))])"
      by blast
  }
qed

text \<open>
  Three instances: \<^verbatim>\<open>ax=1, ay=2, az=3\<close> and no gyro; a gyro object that only has
  \<^verbatim>\<open>y\<close>; and a gyro entry that is the number 5.
\<close>

theorem missing_gyro_defaults_to_zero_witness:
  "on_message
     (sample_lib (PDict [(''acc'', PDict [(''x'', PInt 1), (''y'', PInt 2), (''z'', PInt 3)])]))
     True 1700000000000000 (Some empty_db) imu_message
   = (Some (empty_db\<lparr>imu := [[(''_id'', PObjectId 0), (''timestamp'', PNone),
                                (''session'', PNone),
                                (''ax'', PInt 1), (''ay'', PInt 2), (''az'', PInt 3),
                                (''gx'', PFloat 0), (''gy'', PFloat 0), (''gz'', PFloat 0),
                                (''received_at'', PDatetime 1700000000000000)]],
                      next_oid := 1\<rparr>),
      [ImuSaved PNone (PObjectId 0)])
   \<and> on_message
     (sample_lib (PDict [(''acc'', PDict [(''x'', PInt 1), (''y'', PInt 2), (''z'', PInt 3)]),
                         (''gyro'', PDict [(''y'', PFloat 5)])]))
     True 1700000000000000 (Some empty_db) imu_message
   = (Some (empty_db\<lparr>imu := [[(''_id'', PObjectId 0), (''timestamp'', PNone),
                                (''session'', PNone),
                                (''ax'', PInt 1), (''ay'', PInt 2), (''az'', PInt 3),
                                (''gx'', PFloat 0), (''gy'', PFloat 5), (''gz'', PFloat 0),
                                (''received_at'', PDatetime 1700000000000000)]],
                      next_oid := 1\<rparr>),
      [ImuSaved PNone (PObjectId 0)])
   \<and> on_message
     (sample_lib (PDict [(''acc'', PDict [(''x'', PInt 1), (''y'', PInt 2), (''z'', PInt 3)]),
                         (''gyro'', PInt 5)]))
     True 1700000000000000 (Some empty_db) imu_message
   = (Some empty_db, [MessageError (str_exn (no_attribute (PInt 5) ''get''))])"
  using missing_gyro_defaults_to_zero
    [where m = imu_message and ready = True and now = 1700000000000000 and db = empty_db
       and p = "PDict [(''acc'', PDict [(''x'', PInt 1), (''y'', PInt 2), (''z'', PInt 3)])]"
       and L = "sample_lib (PDict [(''acc'', PDict [(''x'', PInt 1), (''y'', PInt 2), (''z'', PInt 3)])])"]
    missing_gyro_defaults_to_zero
    [where m = imu_message and ready = True and now = 1700000000000000 and db = empty_db
       and p = "PDict [(''acc'', PDict [(''x'', PInt 1), (''y'', PInt 2), (''z'', PInt 3)]),
                         (''gyro'', PDict [(''y'', PFloat 5)])]"
       and L = "sample_lib (PDict [(''acc'', PDict [(''x'', PInt 1), (''y'', PInt 2), (''z'', PInt 3)]),
                         (''gyro'', PDict [(''y'', PFloat 5)])])"]
    missing_gyro_defaults_to_zero
    [where m = imu_message and ready = True and now = 1700000000000000 and db = empty_db
       and p = "PDict [(''acc'', PDict [(''x'', PInt 1), (''y'', PInt 2), (''z'', PInt 3)]),
                         (''gyro'', PInt 5)]"
       and L = "sample_lib (PDict [(''acc'', PDict [(''x'', PInt 1), (''y'', PInt 2), (''z'', PInt 3)]),
                         (''gyro'', PInt 5)])"]
  by (simp add: eval_defs gyro_entry_def)

text \<open>
  C9 as it was stated fails: the payload
  \<^verbatim>\<open>{"timestamp": 111, "session": 7, "acc": {"x": 1.0, "y": 2.0, "z": 3.0}, "gyro": null}\<close>
  holds the three axes and lacks the gyro sub-object (the entry is null, and
  \<open>lookup2\<close> finds none of its fields), yet the record is rejected: the collection
  stays empty and the line printed is the AttributeError.
\<close>

theorem gyro_null_rejected_counterexample:
  "lookup2 (PDict [(''timestamp'', PInt 111), (''session'', PInt 7),
                   (''acc'', PDict [(''x'', PFloat 1), (''y'', PFloat 2), (''z'', PFloat 3)]),
                   (''gyro'', PNone)]) ''acc'' ''z'' = Some (PFloat 3)
   \<and> lookup2 (PDict [(''timestamp'', PInt 111), (''session'', PInt 7),
                   (''acc'', PDict [(''x'', PFloat 1), (''y'', PFloat 2), (''z'', PFloat 3)]),
                   (''gyro'', PNone)]) ''gyro'' ''x'' = None
   \<and> on_message
        (sample_lib (PDict [(''timestamp'', PInt 111), (''session'', PInt 7),
                   (''acc'', PDict [(''x'', PFloat 1), (''y'', PFloat 2), (''z'', PFloat 3)]),
                   (''gyro'', PNone)]))
        True 1700000000000000 (Some empty_db) imu_message
      = (Some empty_db, [MessageError (quoted ''NoneType'' @ '' object has no attribute '' @ quoted ''get'')])"
  by (simp add: eval_defs)

section \<open>Properties of the query builder\<close>

lemma map_of_remove_arg:
  "map_of (remove_arg k a) k' = (if k' = k then None else map_of a k')"
  by (induction a) (auto simp: remove_arg_def)

lemma truthy_arg_cong:
  "map_of a' k = map_of a k \<Longrightarrow> truthy_arg a' k = truthy_arg a k"
  by (simp add: truthy_arg_def)

lemma limit_arg_cong:
  "map_of a' ''limit'' = map_of a ''limit'' \<Longrightarrow> limit_arg L a' = limit_arg L a"
  by (simp add: limit_arg_def)

lemma session_filter_cong:
  "map_of a' ''session'' = map_of a ''session'' \<Longrightarrow> session_filter L a' = session_filter L a"
  by (simp add: session_filter_def)

lemma range_filter_cong:
  assumes "map_of a' ''from_dt'' = map_of a ''from_dt''"
    and "map_of a' ''to_dt'' = map_of a ''to_dt''"
  shows "range_filter L a' q = range_filter L a q"
  using assms by (simp add: range_filter_def truthy_arg_def)

lemma session_filter_result:
  "session_filter L a =
     (case map_of a ''session'' of
        None \<Rightarrow> []
      | Some s \<Rightarrow>
          if s = [] \<or> s = ''all'' then []
          else (case py_int L s of
                  Inr k \<Rightarrow> [(''session'', PInt k)]
                | Inl msg \<Rightarrow> [(''session'', PStr s)]))"
  by (simp add: session_filter_def split: option.splits sum.splits)

lemma session_filter_no_received_at:
  "AList.update ''received_at'' v (session_filter L a) = session_filter L a @ [(''received_at'', v)]"
  by (simp add: session_filter_result split: option.splits sum.splits)

lemma range_filter_append:
  "range_filter L a (session_filter L a') =
     bind_exn (range_filter L a []) (\<lambda>w. Inr (session_filter L a' @ w))"
  by (simp add: range_filter_def bind_exn_def session_filter_no_received_at
      split: option.splits sum.splits)

lemma build_query_without_session:
  "build_query L now (remove_arg ''session'' a) =
     bind_exn (limit_arg L a) (\<lambda>limit.
       (case truthy_arg a ''minutes'' of
          Some m \<Rightarrow>
            bind_exn (py_float L m) (\<lambda>f.
            bind_exn (timedelta_minutes L f) (\<lambda>d.
            bind_exn (datetime_sub now d) (\<lambda>dt_from.
              Inr ([(''received_at'', PDict [(''$gte'', PDatetime dt_from)])], limit))))
        | None \<Rightarrow> bind_exn (range_filter L a []) (\<lambda>q. Inr (q, limit))))"
proof -
  have 1: "limit_arg L (remove_arg ''session'' a) = limit_arg L a"
    by (rule limit_arg_cong) (simp add: map_of_remove_arg)
  have 2: "session_filter L (remove_arg ''session'' a) = []"
    by (simp add: session_filter_def map_of_remove_arg)
  have 3: "truthy_arg (remove_arg ''session'' a) ''minutes'' = truthy_arg a ''minutes''"
    by (rule truthy_arg_cong) (simp add: map_of_remove_arg)
  have 4: "range_filter L (remove_arg ''session'' a) [] = range_filter L a []"
    by (rule range_filter_cong) (simp_all add: map_of_remove_arg)
  show ?thesis
    by (simp add: build_query_def 1 2 3 4 bind_exn_def split: option.splits sum.splits)
qed

lemma build_query_with_session:
  "build_query L now a =
     bind_exn (limit_arg L a) (\<lambda>limit.
       (case truthy_arg a ''minutes'' of
          Some m \<Rightarrow>
            bind_exn (py_float L m) (\<lambda>f.
            bind_exn (timedelta_minutes L f) (\<lambda>d.
            bind_exn (datetime_sub now d) (\<lambda>dt_from.
              Inr (session_filter L a @ [(''received_at'', PDict [(''$gte'', PDatetime dt_from)])],
                   limit))))
        | None \<Rightarrow> bind_exn (range_filter L a []) (\<lambda>q. Inr (session_filter L a @ q, limit))))"
  by (simp add: build_query_def range_filter_append session_filter_no_received_at bind_exn_def
      split: option.splits sum.splits)

lemma build_query_session_split:
  "build_query L now a =
     (case build_query L now (remove_arg ''session'' a) of
        Inl e \<Rightarrow> Inl e
      | Inr (w, n) \<Rightarrow> Inr (session_filter L a @ w, n))"
  unfolding build_query_without_session
  by (simp add: build_query_with_session bind_exn_def split: option.splits sum.splits)

lemma build_query_rest_no_session:
  "build_query L now (remove_arg ''session'' a) = Inr (w, n) \<Longrightarrow> map_of w ''session'' = None"
  unfolding build_query_without_session
  by (auto simp: bind_exn_def range_filter_def update_conv'
      split: option.splits sum.splits if_splits)

text \<open>
  C4: the session predicate of \<^verbatim>\<open>_build_query\<close>. Take the request without its
  \<^verbatim>\<open>session\<close> parameter. If the builder raises on it (a limit, a number of minutes or
  an instant that does not parse), it raises the same on the request itself: the session
  step never raises. If it returns a filter \<open>w\<close> (the time window, which has no entry for
  \<^verbatim>\<open>session\<close>) and a limit, then on the request itself the builder returns the same
  limit and the filter \<open>w\<close> preceded by the session predicate: nothing when
  \<^verbatim>\<open>session\<close> is absent, empty or the text \<^verbatim>\<open>all\<close>; the equality with the integer
  when \<^verbatim>\<open>int\<close> reads the text; the equality with the raw string otherwise.
\<close>

theorem build_query_session_predicate:
  "(\<forall>w n. build_query L now (remove_arg ''session'' a) = Inr (w, n) \<longrightarrow>
       map_of w ''session'' = None
     \<and> build_query L now a =
         Inr ((case map_of a ''session'' of
                 None \<Rightarrow> []
               | Some s \<Rightarrow>
                   if s = [] \<or> s = ''all'' then []
                   else (case py_int L s of
                           Inr k \<Rightarrow> [(''session'', PInt k)]
                         | Inl msg \<Rightarrow> [(''session'', PStr s)])) @ w, n))
   \<and> (\<forall>e. build_query L now (remove_arg ''session'' a) = Inl e \<longrightarrow> build_query L now a = Inl e)"
proof (intro conjI allI impI)
  fix w n
  assume r: "build_query L now (remove_arg ''session'' a) = Inr (w, n)"
  show "map_of w ''session'' = None"
    using r by (rule build_query_rest_no_session)
  have "build_query L now a = Inr (session_filter L a @ w, n)"
    using build_query_session_split [of L now a] r by simp
  then show "build_query L now a =
         Inr ((case map_of a ''session'' of
                 None \<Rightarrow> []
               | Some s \<Rightarrow>
                   if s = [] \<or> s = ''all'' then []
                   else (case py_int L s of
                           Inr k \<Rightarrow> [(''session'', PInt k)]
                         | Inl msg \<Rightarrow> [(''session'', PStr s)])) @ w, n)"
    unfolding session_filter_result .
next
  fix e
  assume "build_query L now (remove_arg ''session'' a) = Inl e"
  then show "build_query L now a = Inl e"
    using build_query_session_split [of L now a] by simp
qed

lemmas query_defs = build_query_def session_filter_def limit_arg_def range_filter_def
  truthy_arg_def bind_exn_def replace_Z_def datetime_sub_def sample_lib_def quoted_def Let_def

text \<open>
  The instances of the specification, each with a \<^verbatim>\<open>from_dt\<close> beside it:
  \<^verbatim>\<open>session=7\<close> gives the integer 7, \<^verbatim>\<open>session=abc\<close> the string, and
  \<^verbatim>\<open>session=all\<close>, an empty \<^verbatim>\<open>session\<close> and no \<^verbatim>\<open>session\<close> give no entry; and with
  a limit that does not parse the builder raises whatever the session is.
\<close>

theorem build_query_session_predicate_witness:
  "build_query (sample_lib PNone) 1700000000000000
     [(''session'', ''7''), (''from_dt'', ''2024-01-01T00:00:00Z'')]
     = Inr ([(''session'', PInt 7),
             (''received_at'', PDict [(''$gte'', PDatetime 1704067200000000)])], 2000)
   \<and> build_query (sample_lib PNone) 1700000000000000
     [(''session'', ''abc''), (''from_dt'', ''2024-01-01T00:00:00Z'')]
     = Inr ([(''session'', PStr ''abc''),
             (''received_at'', PDict [(''$gte'', PDatetime 1704067200000000)])], 2000)
   \<and> build_query (sample_lib PNone) 1700000000000000
     [(''session'', ''all''), (''from_dt'', ''2024-01-01T00:00:00Z'')]
     = Inr ([(''received_at'', PDict [(''$gte'', PDatetime 1704067200000000)])], 2000)
   \<and> build_query (sample_lib PNone) 1700000000000000
     [(''session'', []), (''from_dt'', ''2024-01-01T00:00:00Z'')]
     = Inr ([(''received_at'', PDict [(''$gte'', PDatetime 1704067200000000)])], 2000)
   \<and> build_query (sample_lib PNone) 1700000000000000 [(''from_dt'', ''2024-01-01T00:00:00Z'')]
     = Inr ([(''received_at'', PDict [(''$gte'', PDatetime 1704067200000000)])], 2000)
   \<and> build_query (sample_lib PNone) 1700000000000000 [(''session'', ''7''), (''limit'', ''x'')]
     = Inl (Exn ValueError (''invalid literal for int() with base 10: '' @ quoted ''x''))"
proof -
  have r: "build_query (sample_lib PNone) 1700000000000000
             (remove_arg ''session'' [(''session'', s), (''from_dt'', ''2024-01-01T00:00:00Z'')])
           = Inr ([(''received_at'', PDict [(''$gte'', PDatetime 1704067200000000)])], 2000)" for s
    by (simp add: query_defs remove_arg_def)
  have r0: "build_query (sample_lib PNone) 1700000000000000
             (remove_arg ''session'' [(''from_dt'', ''2024-01-01T00:00:00Z'')])
           = Inr ([(''received_at'', PDict [(''$gte'', PDatetime 1704067200000000)])], 2000)"
    by (simp add: query_defs remove_arg_def)
  have x: "build_query (sample_lib PNone) 1700000000000000
             (remove_arg ''session'' [(''session'', ''7''), (''limit'', ''x'')])
           = Inl (Exn ValueError (''invalid literal for int() with base 10: '' @ quoted ''x''))"
    by (simp add: query_defs remove_arg_def)
  have i: "py_int (sample_lib PNone) ''7'' = Inr 7"
    "py_int (sample_lib PNone) ''abc'' = Inl (''invalid literal for int() with base 10: '' @ quoted ''abc'')"
    by (simp_all add: sample_lib_def)
  have 1: "build_query (sample_lib PNone) 1700000000000000
     [(''session'', ''7''), (''from_dt'', ''2024-01-01T00:00:00Z'')]
     = Inr ([(''session'', PInt 7),
             (''received_at'', PDict [(''$gte'', PDatetime 1704067200000000)])], 2000)"
    using build_query_session_predicate
      [of "sample_lib PNone" 1700000000000000
          "[(''session'', ''7''), (''from_dt'', ''2024-01-01T00:00:00Z'')]"] r [of "''7''"]
    by (simp add: i)
  have 2: "build_query (sample_lib PNone) 1700000000000000
     [(''session'', ''abc''), (''from_dt'', ''2024-01-01T00:00:00Z'')]
     = Inr ([(''session'', PStr ''abc''),
             (''received_at'', PDict [(''$gte'', PDatetime 1704067200000000)])], 2000)"
    using build_query_session_predicate
      [of "sample_lib PNone" 1700000000000000
          "[(''session'', ''abc''), (''from_dt'', ''2024-01-01T00:00:00Z'')]"] r [of "''abc''"]
    by (simp add: i)
  have 3: "build_query (sample_lib PNone) 1700000000000000
     [(''session'', ''all''), (''from_dt'', ''2024-01-01T00:00:00Z'')]
     = Inr ([(''received_at'', PDict [(''$gte'', PDatetime 1704067200000000)])], 2000)"
    using build_query_session_predicate
      [of "sample_lib PNone" 1700000000000000
          "[(''session'', ''all''), (''from_dt'', ''2024-01-01T00:00:00Z'')]"] r [of "''all''"]
    by simp
  have 4: "build_query (sample_lib PNone) 1700000000000000
     [(''session'', []), (''from_dt'', ''2024-01-01T00:00:00Z'')]
     = Inr ([(''received_at'', PDict [(''$gte'', PDatetime 1704067200000000)])], 2000)"
    using build_query_session_predicate
      [of "sample_lib PNone" 1700000000000000
          "[(''session'', []), (''from_dt'', ''2024-01-01T00:00:00Z'')]"] r [of "[]"]
    by simp
  have 5: "build_query (sample_lib PNone) 1700000000000000 [(''from_dt'', ''2024-01-01T00:00:00Z'')]
     = Inr ([(''received_at'', PDict [(''$gte'', PDatetime 1704067200000000)])], 2000)"
    using build_query_session_predicate
      [of "sample_lib PNone" 1700000000000000 "[(''from_dt'', ''2024-01-01T00:00:00Z'')]"] r0
    by simp
  have 6: "build_query (sample_lib PNone) 1700000000000000 [(''session'', ''7''), (''limit'', ''x'')]
     = Inl (Exn ValueError (''invalid literal for int() with base 10: '' @ quoted ''x''))"
    using build_query_session_predicate
      [of "sample_lib PNone" 1700000000000000 "[(''session'', ''7''), (''limit'', ''x'')]"] x
    by simp
  show ?thesis
    using 1 2 3 4 5 6 by (intro conjI)
qed

lemma build_query_minutes:
  assumes "map_of a ''minutes'' = Some m" and "m \<noteq> []"
  shows "build_query L now a =
     bind_exn (limit_arg L a) (\<lambda>limit.
     bind_exn (py_float L m) (\<lambda>f.
     bind_exn (timedelta_minutes L f) (\<lambda>d.
     bind_exn (datetime_sub now d) (\<lambda>dt_from.
       Inr (session_filter L a @ [(''received_at'', PDict [(''$gte'', PDatetime dt_from)])],
            limit)))))"
proof -
  have "truthy_arg a ''minutes'' = Some m"
    using assms by (simp add: truthy_arg_def)
  then show ?thesis
    by (simp add: build_query_with_session)
qed




lemma minutes_filter_ignores_range:
  assumes "map_of a ''minutes'' = Some m" and "m \<noteq> []"
    and "map_of a' ''limit'' = map_of a ''limit''"
    and "map_of a' ''session'' = map_of a ''session''"
    and "map_of a' ''minutes'' = map_of a ''minutes''"
  shows "build_query L now a' = build_query L now a"
proof -
  have 1: "map_of a' ''minutes'' = Some m"
    using assms(1,5) by simp
  have 2: "limit_arg L a' = limit_arg L a"
    using assms(3) by (rule limit_arg_cong)
  have 3: "session_filter L a' = session_filter L a"
    using assms(4) by (rule session_filter_cong)
  show ?thesis
    unfolding build_query_minutes [OF 1 assms(2)] build_query_minutes [OF assms(1,2)] 2 3 ..
qed







section \<open>Properties of the endpoints\<close>

lemma guarded_error:
  "(\<And>db. mdb = Some db \<Longrightarrow> isl (try_block db)) \<Longrightarrow> \<exists>msg. guarded mdb try_block = error_response msg"
  by (cases mdb) (auto simp: guarded_def split: sum.splits)

lemma build_query_malformed:
  assumes "truthy_arg a ''minutes'' = None"
    and "malformed_instant L a ''from_dt'' \<or> malformed_instant L a ''to_dt''"
  shows "isl (build_query L now a)"
  using assms
  by (auto simp: build_query_def range_filter_def bind_exn_def malformed_instant_def
      split: option.splits sum.splits)

lemma build_query_minutes_without_range:
  assumes "truthy_arg a ''minutes'' \<noteq> None"
  shows "build_query L now (remove_arg ''from_dt'' (remove_arg ''to_dt'' a)) = build_query L now a"
proof -
  obtain m where m: "map_of a ''minutes'' = Some m" "m \<noteq> []"
    using assms by (auto simp: truthy_arg_def split: option.splits if_splits)
  show ?thesis
    using m by (rule minutes_filter_ignores_range) (simp_all add: map_of_remove_arg)
qed

lemma handle_build_query_cong:
  assumes "build_query L now a' = build_query L now a"
  shows "handle L uri is_set now mdb ep a' = handle L uri is_set now mdb ep a"
  using assms
  by (cases ep)
    (simp_all add: get_imu_def get_gps_def imu_stats_def summary_def guarded_def
      listing_try_def imu_stats_try_def summary_try_def split: option.splits)

text \<open>
  C2, as amended: a request to one of the four endpoints that build a filter (IMU
  listing, IMU statistics, GPS listing, summary) in which \<^verbatim>\<open>from_dt\<close> or \<^verbatim>\<open>to_dt\<close> is
  a non-empty text that \<^verbatim>\<open>datetime.fromisoformat\<close> rejects. When \<^verbatim>\<open>minutes\<close> is absent
  or empty, the view answers the error object with status 500, which is a server error
  and not a client error; the exception does not leave the view. When \<^verbatim>\<open>minutes\<close> is
  not empty the two instants are not read: the answer is the one to the request without
  them.
\<close>

theorem malformed_instant_gives_error_response:
  assumes "malformed_instant L a ''from_dt'' \<or> malformed_instant L a ''to_dt''"
    and "ep = GetImu \<or> ep = ImuStats \<or> ep = GetGps \<or> ep = Summary"
  shows "(truthy_arg a ''minutes'' = None \<longrightarrow>
            (\<exists>msg. handle L uri is_set now mdb ep a =
                     \<lparr>body = PDict [(''error'', PStr msg)], status = 500\<rparr>)
          \<and> \<not> client_error_status (status (handle L uri is_set now mdb ep a)))
       \<and> (truthy_arg a ''minutes'' \<noteq> None \<longrightarrow>
            handle L uri is_set now mdb ep a =
            handle L uri is_set now mdb ep (remove_arg ''from_dt'' (remove_arg ''to_dt'' a)))"
proof (intro conjI impI)
  assume n: "truthy_arg a ''minutes'' = None"
  have b: "isl (build_query L now a)"
    using n assms(1) by (rule build_query_malformed)
  then obtain e where e: "build_query L now a = Inl e"
    by (cases "build_query L now a") simp_all
  have "\<exists>msg. handle L uri is_set now mdb ep a = error_response msg"
    using assms(2)
    by (elim disjE)
      (auto simp: get_imu_def get_gps_def imu_stats_def summary_def listing_try_def
        imu_stats_try_def summary_try_def bind_exn_def e intro!: guarded_error)
  then obtain msg where msg: "handle L uri is_set now mdb ep a = error_response msg"
    by blast
  show "\<exists>msg. handle L uri is_set now mdb ep a =
                     \<lparr>body = PDict [(''error'', PStr msg)], status = 500\<rparr>"
    using msg by (simp add: error_response_def)
  show "\<not> client_error_status (status (handle L uri is_set now mdb ep a))"
    unfolding msg by (simp add: error_response_def client_error_status_def)
next
  assume "truthy_arg a ''minutes'' \<noteq> None"
  then have "build_query L now (remove_arg ''from_dt'' (remove_arg ''to_dt'' a)) = build_query L now a"
    by (rule build_query_minutes_without_range)
  then show "handle L uri is_set now mdb ep a =
            handle L uri is_set now mdb ep (remove_arg ''from_dt'' (remove_arg ''to_dt'' a))"
    by (rule handle_build_query_cong [symmetric])
qed

lemmas endpoint_defs = get_imu_def get_gps_def imu_stats_def summary_def gps_latest_def
  sessions_def available_days_def health_def guarded_def listing_try_def imu_stats_try_def
  summary_try_def gps_latest_try_def sessions_try_def available_days_try_def
  ok_response_def error_response_def find_sorted_def find_one_latest_def count_documents_def
  aggregate_def distinct_values_def ping_def empty_db_def down_db_def

text \<open>
  The instances: \<^verbatim>\<open>/api/imu?from_dt=garbage\<close>, and
  \<^verbatim>\<open>/api/imu?minutes=10&from_dt=garbage\<close>, which is answered as
  \<^verbatim>\<open>/api/imu?minutes=10\<close> is, with the empty listing.
\<close>

theorem malformed_instant_gives_error_response_witness:
  "handle (sample_lib PNone) ''mongodb://localhost:27017/vehicle_sensor'' True 1700000000000000
     (Some empty_db) GetImu [(''from_dt'', ''garbage'')]
   = \<lparr>body = PDict [(''error'', PStr (''Invalid isoformat string: '' @ quoted ''garbage''))],
      status = 500\<rparr>
   \<and> handle (sample_lib PNone) ''mongodb://localhost:27017/vehicle_sensor'' True 1700000000000000
       (Some empty_db) GetImu [(''minutes'', ''10''), (''from_dt'', ''garbage'')]
     = \<lparr>body = PList [], status = 200\<rparr>"
proof -
  have m1: "malformed_instant (sample_lib PNone) [(''from_dt'', ''garbage'')] ''from_dt''
            \<or> malformed_instant (sample_lib PNone) [(''from_dt'', ''garbage'')] ''to_dt''"
    by (simp add: malformed_instant_def truthy_arg_def sample_lib_def replace_Z_def)
  have m2: "malformed_instant (sample_lib PNone) [(''minutes'', ''10''), (''from_dt'', ''garbage'')] ''from_dt''
            \<or> malformed_instant (sample_lib PNone) [(''minutes'', ''10''), (''from_dt'', ''garbage'')] ''to_dt''"
    by (simp add: malformed_instant_def truthy_arg_def sample_lib_def replace_Z_def)
  have ep: "GetImu = GetImu \<or> GetImu = ImuStats \<or> GetImu = GetGps \<or> GetImu = Summary"
    by simp
  have t1: "truthy_arg [(''from_dt'', ''garbage'')] ''minutes'' = None"
    by (simp add: truthy_arg_def)
  have t2: "truthy_arg [(''minutes'', ''10''), (''from_dt'', ''garbage'')] ''minutes'' \<noteq> None"
    by (simp add: truthy_arg_def)
  note w1 = malformed_instant_gives_error_response
    [OF m1 ep, where uri = "''mongodb://localhost:27017/vehicle_sensor''" and is_set = True
       and now = 1700000000000000 and mdb = "Some empty_db",
     THEN conjunct1, THEN mp, OF t1, THEN conjunct1]
  note w2 = malformed_instant_gives_error_response
    [OF m2 ep, where uri = "''mongodb://localhost:27017/vehicle_sensor''" and is_set = True
       and now = 1700000000000000 and mdb = "Some empty_db",
     THEN conjunct2, THEN mp, OF t2]
  have b: "build_query (sample_lib PNone) 1700000000000000 [(''from_dt'', ''garbage'')]
           = Inl (Exn ValueError (''Invalid isoformat string: '' @ quoted ''garbage''))"
    by (simp add: query_defs)
  have 1: "handle (sample_lib PNone) ''mongodb://localhost:27017/vehicle_sensor'' True 1700000000000000
     (Some empty_db) GetImu [(''from_dt'', ''garbage'')]
   = \<lparr>body = PDict [(''error'', PStr (''Invalid isoformat string: '' @ quoted ''garbage''))],
      status = 500\<rparr>"
    using w1 by (simp add: get_imu_def guarded_def listing_try_def b bind_exn_def error_response_def)
  have c: "build_query (sample_lib PNone) 1700000000000000 [(''minutes'', ''10'')]
           = Inr ([(''received_at'', PDict [(''$gte'', PDatetime 1699999400000000)])], 2000)"
    by (simp add: query_defs)
  have 2: "handle (sample_lib PNone) ''mongodb://localhost:27017/vehicle_sensor'' True 1700000000000000
       (Some empty_db) GetImu [(''minutes'', ''10''), (''from_dt'', ''garbage'')]
     = \<lparr>body = PList [], status = 200\<rparr>"
    unfolding w2
    by (simp add: remove_arg_def get_imu_def guarded_def listing_try_def c bind_exn_def
        find_sorted_def empty_db_def apply_limit_def ok_response_def)
  show ?thesis
    using 1 2 by (intro conjI)
qed

text \<open>
  C2 as it was stated fails: \<^verbatim>\<open>/api/gps?to_dt=yesterday\<close> has no \<^verbatim>\<open>minutes\<close> and a
  malformed to instant, and the answer has the status 500, which is not a client error.
\<close>

theorem malformed_instant_status_counterexample:
  "truthy_arg [(''to_dt'', ''yesterday'')] ''minutes'' = None
   \<and> malformed_instant (sample_lib PNone) [(''to_dt'', ''yesterday'')] ''to_dt''
   \<and> handle (sample_lib PNone) ''mongodb://localhost:27017/vehicle_sensor'' True 1700000000000000
        (Some empty_db) GetGps [(''to_dt'', ''yesterday'')]
      = \<lparr>body = PDict [(''error'', PStr (''Invalid isoformat string: '' @ quoted ''yesterday''))],
         status = 500\<rparr>
   \<and> \<not> client_error_status 500"
proof -
  have b: "build_query (sample_lib PNone) 1700000000000000 [(''to_dt'', ''yesterday'')]
           = Inl (Exn ValueError (''Invalid isoformat string: '' @ quoted ''yesterday''))"
    by (simp add: query_defs)
  have h: "handle (sample_lib PNone) ''mongodb://localhost:27017/vehicle_sensor'' True 1700000000000000
        (Some empty_db) GetGps [(''to_dt'', ''yesterday'')]
      = \<lparr>body = PDict [(''error'', PStr (''Invalid isoformat string: '' @ quoted ''yesterday''))],
         status = 500\<rparr>"
    by (simp add: get_gps_def guarded_def listing_try_def b bind_exn_def error_response_def)
  have m: "malformed_instant (sample_lib PNone) [(''to_dt'', ''yesterday'')] ''to_dt''"
    by (simp add: malformed_instant_def truthy_arg_def sample_lib_def replace_Z_def)
  have t: "truthy_arg [(''to_dt'', ''yesterday'')] ''minutes'' = None"
    by (simp add: truthy_arg_def)
  have c: "\<not> client_error_status 500"
    by (simp add: client_error_status_def)
  show ?thesis
    using t m h c by (intro conjI)
qed

lemma bind_exn_isl_left: "isl m \<Longrightarrow> isl (bind_exn m f)"
  by (cases m) (simp_all add: bind_exn_def)

lemma bind_exn_isl_right: "(\<And>v. m = Inr v \<Longrightarrow> isl (f v)) \<Longrightarrow> isl (bind_exn m f)"
  by (cases m) (simp_all add: bind_exn_def)

lemma sessions_try_fails:
  "storage_fails db Sessions \<Longrightarrow> isl (sessions_try db)"
  by (auto simp: sessions_try_def distinct_values_def bind_exn_def split: option.splits sum.splits)

lemma find_sorted_raises:
  "raises db (Find c q) \<noteq> None \<Longrightarrow> isl (find_sorted db c q proj n)"
  by (cases "raises db (Find c q)") (simp_all add: find_sorted_def)

lemma aggregate_raises:
  "raises db (Aggregate c p) \<noteq> None \<Longrightarrow> isl (aggregate db c p)"
  by (cases "raises db (Aggregate c p)") (simp_all add: aggregate_def)

lemma count_documents_raises:
  "raises db (CountDocuments c q) \<noteq> None \<Longrightarrow> isl (count_documents db c q)"
  by (cases "raises db (CountDocuments c q)") (simp_all add: count_documents_def)

lemma listing_try_fails:
  assumes "\<forall>q. raises db (Find c q) \<noteq> None"
  shows "isl (listing_try L now a c proj db)"
  unfolding listing_try_def
proof (rule bind_exn_isl_right)
  fix v
  assume "build_query L now a = Inr v"
  obtain q n where v: "v = (q, n)"
    by (cases v)
  have "isl (find_sorted db c q proj n)"
    using assms by (simp add: find_sorted_raises)
  then show "isl (case v of (query, n) \<Rightarrow>
                bind_exn (find_sorted db c query proj n) (\<lambda>docs.
                bind_exn (iso_all L docs) (\<lambda>ds. Inr (ok_response (PList (map PDict ds))))))"
    by (simp add: v bind_exn_isl_left)
qed

lemma imu_stats_try_fails:
  assumes "\<forall>p. raises db (Aggregate Imu p) \<noteq> None"
  shows "isl (imu_stats_try L now a db)"
  unfolding imu_stats_try_def
proof (rule bind_exn_isl_right)
  fix v
  assume "build_query L now a = Inr v"
  obtain q n where v: "v = (q, n)"
    by (cases v)
  have "isl (aggregate db Imu (stats_pipeline q))"
    using assms by (simp add: aggregate_raises)
  then show "isl (case v of (query, n) \<Rightarrow>
                bind_exn (aggregate db Imu (stats_pipeline query)) (\<lambda>result.
                  Inr (ok_response (case result of
                           [] \<Rightarrow> PDict []
                         | r # rs \<Rightarrow> PDict (AList.delete ''_id'' r)))))"
    by (simp add: v bind_exn_isl_left)
qed

lemma gps_latest_try_fails:
  "raises db (FindOne Gps) \<noteq> None \<Longrightarrow> isl (gps_latest_try L db)"
  unfolding gps_latest_try_def
  by (rule bind_exn_isl_left) (auto simp: find_one_latest_def)

lemma summary_try_fails:
  assumes "(\<forall>q. raises db (CountDocuments Imu q) \<noteq> None) \<or> (\<forall>q. raises db (CountDocuments Gps q) \<noteq> None)"
  shows "isl (summary_try L now a db)"
  unfolding summary_try_def
proof (rule bind_exn_isl_right)
  fix v
  assume "build_query L now a = Inr v"
  obtain q n where v: "v = (q, n)"
    by (cases v)
  have "isl (count_documents db Imu q) \<or> isl (count_documents db Gps q)"
    using assms by (auto simp: count_documents_raises)
  then have "isl (bind_exn (count_documents db Imu q) (\<lambda>imu_count.
              bind_exn (count_documents db Gps q) (\<lambda>gps_count.
                Inr (ok_response (PDict [(''imu_count'', PInt (int imu_count)),
                                         (''gps_count'', PInt (int gps_count))])))))"
    by (cases "count_documents db Imu q"; cases "count_documents db Gps q")
      (simp_all add: bind_exn_def)
  then show "isl (case v of (query, n) \<Rightarrow>
              bind_exn (count_documents db Imu query) (\<lambda>imu_count.
              bind_exn (count_documents db Gps query) (\<lambda>gps_count.
                Inr (ok_response (PDict [(''imu_count'', PInt (int imu_count)),
                                         (''gps_count'', PInt (int gps_count))])))))"
    by (simp add: v)
qed

lemma available_days_try_fails:
  "storage_fails db AvailableDays \<Longrightarrow> isl (available_days_try db)"
  by (auto simp: available_days_try_def aggregate_def bind_exn_def split: option.splits sum.splits)

text \<open>
  C3, as amended: when the store is not connected, or a driver call that the view issues
  raises, each of the seven views other than \<^verbatim>\<open>health\<close> (sessions, IMU listing, IMU
  statistics, GPS listing, GPS latest, summary, days) answers the error object with
  status 500. \<^verbatim>\<open>health\<close> on the same failure answers status 200, with \<^verbatim>\<open>mongo\<close> set to
  \<^verbatim>\<open>error\<close> and the cause in \<^verbatim>\<open>mongo_details\<close>. In no case does an exception leave the
  view: every view is a response.
\<close>

theorem storage_failure_gives_error_response:
  assumes "mdb = None \<or> (\<exists>db. mdb = Some db \<and> storage_fails db ep)"
  shows "(ep \<noteq> Health \<longrightarrow>
            (\<exists>msg. handle L uri is_set now mdb ep a =
                \<lparr>body = PDict [(''error'', PStr msg)], status = 500\<rparr>))
       \<and> (ep = Health \<longrightarrow>
            (\<exists>details. handle L uri is_set now mdb ep a =
                \<lparr>body = PDict [(''status'', PStr ''ok''), (''mongo'', PStr ''error''),
                               (''mongo_details'', PStr details), (''mongo_ready'', PBool is_set)],
                 status = 200\<rparr>))"
proof (intro conjI impI)
  assume "ep \<noteq> Health"
  have f: "storage_fails db ep" if "mdb = Some db" for db
    using assms that by auto
  have "\<exists>msg. handle L uri is_set now mdb ep a = error_response msg"
  proof (cases ep)
    case Health
    with \<open>ep \<noteq> Health\<close> show ?thesis by simp
  next
    case Sessions
    then show ?thesis
      using f by (auto simp: sessions_def intro!: guarded_error sessions_try_fails)
  next
    case GetImu
    then show ?thesis
      using f by (auto simp: get_imu_def intro!: guarded_error listing_try_fails)
  next
    case ImuStats
    then show ?thesis
      using f by (auto simp: imu_stats_def intro!: guarded_error imu_stats_try_fails)
  next
    case GetGps
    then show ?thesis
      using f by (auto simp: get_gps_def intro!: guarded_error listing_try_fails)
  next
    case GpsLatest
    then show ?thesis
      using f by (auto simp: gps_latest_def intro!: guarded_error gps_latest_try_fails)
  next
    case Summary
    then show ?thesis
      using f by (auto simp: summary_def simp del: storage_fails.simps
          intro!: guarded_error summary_try_fails dest!: f [unfolded Summary storage_fails.simps])
  next
    case AvailableDays
    then show ?thesis
      using f by (auto simp: available_days_def simp del: storage_fails.simps
          intro!: guarded_error available_days_try_fails)
  qed
  then show "\<exists>msg. handle L uri is_set now mdb ep a =
                \<lparr>body = PDict [(''error'', PStr msg)], status = 500\<rparr>"
    by (simp add: error_response_def)
next
  assume h: "ep = Health"
  show "\<exists>details. handle L uri is_set now mdb ep a =
                \<lparr>body = PDict [(''status'', PStr ''ok''), (''mongo'', PStr ''error''),
                               (''mongo_details'', PStr details), (''mongo_ready'', PBool is_set)],
                 status = 200\<rparr>"
    using assms
    by (auto simp: h health_def ping_def ok_response_def split: option.splits)
qed

text \<open>The instances: the sessions view and the health view, on a store where every call
  raises.\<close>

theorem storage_failure_gives_error_response_witness:
  "handle (sample_lib PNone) ''mongodb://localhost:27017/vehicle_sensor'' True 1700000000000000
     (Some down_db) Sessions []
   = \<lparr>body = PDict [(''error'', PStr ''connection refused'')], status = 500\<rparr>
   \<and> handle (sample_lib PNone) ''mongodb://localhost:27017/vehicle_sensor'' True 1700000000000000
     None GpsLatest []
   = \<lparr>body = PDict [(''error'', PStr ''MongoDB not connected'')], status = 500\<rparr>"
  using storage_failure_gives_error_response
    [where ep = Sessions and mdb = "Some down_db" and L = "sample_lib PNone" and a = "[]"
       and now = 1700000000000000 and is_set = True
       and uri = "''mongodb://localhost:27017/vehicle_sensor''"]
  by (simp add: endpoint_defs bind_exn_def)

text \<open>
  C3 as it was stated fails for \<^verbatim>\<open>health\<close>: when the ping raises, the view answers
  status 200.
\<close>

theorem health_answers_200_counterexample:
  "raises down_db Ping \<noteq> None
   \<and> handle (sample_lib PNone) ''mongodb://localhost:27017/vehicle_sensor'' True 1700000000000000
     (Some down_db) Health []
   = \<lparr>body = PDict [(''status'', PStr ''ok''), (''mongo'', PStr ''error''),
                    (''mongo_details'', PStr ''connection refused''),
                    (''mongo_ready'', PBool True)],
      status = 200\<rparr>"
  by (simp add: endpoint_defs)

section \<open>The latest GPS fix\<close>

lemma sorted_map_last_greatest:
  assumes "sorted (map k ys)" and "x \<in> set ys"
  shows "k x \<le> k (last ys)"
  using assms
proof (induction ys rule: rev_induct)
  case Nil
  then show ?case by simp
next
  case (snoc y ys)
  then show ?case
    by (auto simp: sorted_append)
qed

lemma rev_nonempty: "ys \<noteq> [] \<Longrightarrow> rev ys = last ys # rev (butlast ys)"
  by (induction ys rule: rev_induct) simp_all

lemma first_of_descending:
  assumes "xs \<noteq> []"
  shows "\<exists>d ds. rev (sort_key k (rev xs)) = d # ds \<and> d \<in> set xs \<and> (\<forall>x\<in>set xs. k x \<le> k d)"
proof -
  define ys where "ys = sort_key k (rev xs)"
  have "length ys = length xs"
    by (simp add: ys_def)
  then have ne: "ys \<noteq> []"
    using assms by auto
  have s: "sorted (map k ys)" and st: "set ys = set xs"
    by (simp_all add: ys_def)
  have 1: "rev ys = last ys # rev (butlast ys)"
    using ne by (rule rev_nonempty)
  have 2: "last ys \<in> set xs"
    using ne st last_in_set [of ys] by simp
  have 3: "k x \<le> k (last ys)" if "x \<in> set xs" for x
    using s that st sorted_map_last_greatest [of k ys x] by simp
  show ?thesis
    unfolding ys_def [symmetric]
    using 1 2 3 by (intro exI [of _ "last ys"] exI [of _ "rev (butlast ys)"]) simp
qed

lemma serialize_result:
  assumes "map_of d ''_id'' = Some i" and "map_of d ''received_at'' = Some (PDatetime t)"
  shows "serialize L d =
           Inr (AList.update ''received_at'' (PStr (isoformat L t))
                  (AList.update ''_id'' (PStr (py_str L i)) d))"
  using assms by (simp add: serialize_def bind_exn_def update_conv' Let_def)

lemma gps_latest_result:
  assumes "raises db (FindOne Gps) = None" and "gps db \<noteq> []"
    and "\<forall>d\<in>set (gps db). (\<exists>t. map_of d ''received_at'' = Some (PDatetime t))
                            \<and> map_of d ''_id'' \<noteq> None"
  shows "\<exists>d\<in>set (gps db). \<exists>i t.
           map_of d ''_id'' = Some i \<and> map_of d ''received_at'' = Some (PDatetime t)
           \<and> (\<forall>d'\<in>set (gps db). received_key d' \<le> Some t)
           \<and> gps_latest L (Some db) =
               ok_response (PDict (AList.update ''received_at'' (PStr (isoformat L t))
                                     (AList.update ''_id'' (PStr (py_str L i)) d)))"
proof -
  obtain d ds where d: "rev (sort_key received_key (rev (gps db))) = d # ds"
      "d \<in> set (gps db)" "\<forall>x\<in>set (gps db). received_key x \<le> received_key d"
    using first_of_descending [OF assms(2), of received_key] by blast
  obtain i t where it: "map_of d ''_id'' = Some i" "map_of d ''received_at'' = Some (PDatetime t)"
    using assms(3) d(2) by fastforce
  have k: "received_key d = Some t"
    using it(2) by (simp add: received_key_def)
  have ne: "d \<noteq> []"
    using it(1) by auto
  have "gps_latest L (Some db) =
               ok_response (PDict (AList.update ''received_at'' (PStr (isoformat L t))
                                     (AList.update ''_id'' (PStr (py_str L i)) d)))"
    using assms(1) ne
    by (simp add: gps_latest_def guarded_def gps_latest_try_def find_one_latest_def bind_exn_def
        d(1) serialize_result [OF it])
  then show ?thesis
    using d(2,3) it k by auto
qed

lemma gps_latest_empty:
  assumes "raises db (FindOne Gps) = None" and "gps db = []"
  shows "gps_latest L (Some db) = ok_response PNone"
  using assms
  by (simp add: gps_latest_def guarded_def gps_latest_try_def find_one_latest_def bind_exn_def)

text \<open>
  C7: the view \<^verbatim>\<open>/api/gps/latest\<close> on a connected store whose \<^verbatim>\<open>find_one\<close> does not
  raise, where every stored fix has its \<^verbatim>\<open>_id\<close> and its \<^verbatim>\<open>received_at\<close> instant (as
  every document the handler inserts has). When there is no fix the body is null. When
  there is one, the body is the serialized form of a stored fix whose \<^verbatim>\<open>received_at\<close>
  is the greatest of all. The answer is the same for every request arguments: the view
  does not read them.
\<close>

theorem gps_latest_is_most_recent:
  assumes "raises db (FindOne Gps) = None"
    and "\<forall>d\<in>set (gps db). (\<exists>t. map_of d ''received_at'' = Some (PDatetime t))
                            \<and> map_of d ''_id'' \<noteq> None"
  shows "(gps db = [] \<longrightarrow> handle L uri is_set now (Some db) GpsLatest a = ok_response PNone)
       \<and> (gps db \<noteq> [] \<longrightarrow>
            (\<exists>d\<in>set (gps db). \<exists>i t.
               map_of d ''_id'' = Some i \<and> map_of d ''received_at'' = Some (PDatetime t)
               \<and> (\<forall>d'\<in>set (gps db). \<forall>t'. map_of d' ''received_at'' = Some (PDatetime t') \<longrightarrow> t' \<le> t)
               \<and> handle L uri is_set now (Some db) GpsLatest a =
                   ok_response (PDict (AList.update ''received_at'' (PStr (isoformat L t))
                                         (AList.update ''_id'' (PStr (py_str L i)) d)))))
       \<and> (\<forall>a'. handle L uri is_set now (Some db) GpsLatest a'
                = handle L uri is_set now (Some db) GpsLatest a)"
proof (intro conjI impI allI)
  assume "gps db = []"
  then show "handle L uri is_set now (Some db) GpsLatest a = ok_response PNone"
    using assms(1) by (simp add: gps_latest_empty)
next
  assume ne: "gps db \<noteq> []"
  obtain d i t where d: "d \<in> set (gps db)" "map_of d ''_id'' = Some i"
      "map_of d ''received_at'' = Some (PDatetime t)"
      "\<forall>d'\<in>set (gps db). received_key d' \<le> Some t"
      "gps_latest L (Some db) =
               ok_response (PDict (AList.update ''received_at'' (PStr (isoformat L t))
                                     (AList.update ''_id'' (PStr (py_str L i)) d)))"
    using gps_latest_result [OF assms(1) ne assms(2), of L] by blast
  have "t' \<le> t" if "d' \<in> set (gps db)" "map_of d' ''received_at'' = Some (PDatetime t')" for d' t'
    using d(4) that by (force simp: received_key_def)
  then show "\<exists>d\<in>set (gps db). \<exists>i t.
               map_of d ''_id'' = Some i \<and> map_of d ''received_at'' = Some (PDatetime t)
               \<and> (\<forall>d'\<in>set (gps db). \<forall>t'. map_of d' ''received_at'' = Some (PDatetime t') \<longrightarrow> t' \<le> t)
               \<and> handle L uri is_set now (Some db) GpsLatest a =
                   ok_response (PDict (AList.update ''received_at'' (PStr (isoformat L t))
                                         (AList.update ''_id'' (PStr (py_str L i)) d)))"
    using d(1,2,3,5) by (intro bexI [of _ d] exI [of _ i] exI [of _ t]) simp_all
next
  fix a'
  show "handle L uri is_set now (Some db) GpsLatest a'
                = handle L uri is_set now (Some db) GpsLatest a"
    by simp
qed

lemma gps_two_fixes_db:
  "gps two_fixes_db =
     [[(''_id'', PObjectId 0), (''timestamp'', PInt 1), (''session'', PInt 7),
       (''lat'', PFloat 1), (''lon'', PFloat 2), (''received_at'', PDatetime 60000000)],
      [(''_id'', PObjectId 1), (''timestamp'', PInt 2), (''session'', PInt 7),
       (''lat'', PFloat 3), (''lon'', PFloat 4), (''received_at'', PDatetime 120000000)]]"
  by (simp add: two_fixes_db_def)

lemma raises_two_fixes_db: "raises two_fixes_db c = None"
  by (simp add: two_fixes_db_def empty_db_def)

lemma gps_latest_two_fixes:
  "gps_latest (sample_lib PNone) (Some two_fixes_db)
   = ok_response (PDict [(''_id'', PStr ''000000000000000000000001''), (''timestamp'', PInt 2), (''session'', PInt 7),
                         (''lat'', PFloat 3), (''lon'', PFloat 4),
                         (''received_at'', PStr ''1970-01-01T00:02:00'')])"
proof -
  have s: "rev (sort_key received_key (rev (docs_of two_fixes_db Gps)))
      = [[(''_id'', PObjectId 1), (''timestamp'', PInt 2), (''session'', PInt 7),
          (''lat'', PFloat 3), (''lon'', PFloat 4), (''received_at'', PDatetime 120000000)],
         [(''_id'', PObjectId 0), (''timestamp'', PInt 1), (''session'', PInt 7),
          (''lat'', PFloat 1), (''lon'', PFloat 2), (''received_at'', PDatetime 60000000)]]"
    by (simp add: gps_two_fixes_db received_key_def)
  have f: "find_one_latest two_fixes_db Gps
      = Inr (Some [(''_id'', PObjectId 1), (''timestamp'', PInt 2), (''session'', PInt 7),
          (''lat'', PFloat 3), (''lon'', PFloat 4), (''received_at'', PDatetime 120000000)])"
    unfolding find_one_latest_def s by (simp add: raises_two_fixes_db)
  have z: "serialize (sample_lib PNone)
       [(''_id'', PObjectId 1), (''timestamp'', PInt 2), (''session'', PInt 7),
          (''lat'', PFloat 3), (''lon'', PFloat 4), (''received_at'', PDatetime 120000000)]
     = Inr [(''_id'', PStr ''000000000000000000000001''), (''timestamp'', PInt 2), (''session'', PInt 7),
                         (''lat'', PFloat 3), (''lon'', PFloat 4),
                         (''received_at'', PStr ''1970-01-01T00:02:00'')]"
    by (simp add: serialize_def bind_exn_def sample_lib_def)
  show ?thesis
    by (simp add: gps_latest_def guarded_def gps_latest_try_def bind_exn_def f z
        del: One_nat_def)
qed

text \<open>
  The instance of the specification: of two fixes received one minute apart, the later
  one is answered, here to a request that carries a session and a rolling window.
\<close>

theorem gps_latest_is_most_recent_witness:
  "handle (sample_lib PNone) ''mongodb://localhost:27017/vehicle_sensor'' True 1700000000000000
     (Some two_fixes_db) GpsLatest [(''session'', ''8''), (''minutes'', ''10'')]
   = ok_response (PDict [(''_id'', PStr ''000000000000000000000001''), (''timestamp'', PInt 2), (''session'', PInt 7),
                         (''lat'', PFloat 3), (''lon'', PFloat 4),
                         (''received_at'', PStr ''1970-01-01T00:02:00'')])"
proof -
  have p1: "raises two_fixes_db (FindOne Gps) = None"
    by (rule raises_two_fixes_db)
  have p2: "\<forall>d\<in>set (gps two_fixes_db). (\<exists>t. map_of d ''received_at'' = Some (PDatetime t))
                            \<and> map_of d ''_id'' \<noteq> None"
    by (simp add: gps_two_fixes_db)
  note w = gps_latest_is_most_recent [OF p1 p2, where L = "sample_lib PNone"
      and uri = "''mongodb://localhost:27017/vehicle_sensor''" and is_set = True
      and now = 1700000000000000 and a = "[]"]
  from w have "\<forall>a'. handle (sample_lib PNone) ''mongodb://localhost:27017/vehicle_sensor'' True
                      1700000000000000 (Some two_fixes_db) GpsLatest a'
                = handle (sample_lib PNone) ''mongodb://localhost:27017/vehicle_sensor'' True
                      1700000000000000 (Some two_fixes_db) GpsLatest []"
    by (elim conjE)
  then have "handle (sample_lib PNone) ''mongodb://localhost:27017/vehicle_sensor'' True
                      1700000000000000 (Some two_fixes_db) GpsLatest [(''session'', ''8''), (''minutes'', ''10'')]
                = handle (sample_lib PNone) ''mongodb://localhost:27017/vehicle_sensor'' True
                      1700000000000000 (Some two_fixes_db) GpsLatest []"
    by (rule spec)
  also have "\<dots> = gps_latest (sample_lib PNone) (Some two_fixes_db)"
    by simp
  finally show ?thesis
    by (simp only: gps_latest_two_fixes)
qed

section \<open>Internal identifiers in the answers\<close>

lemma project_drops_id:
  "map_of proj ''_id'' = Some 0 \<Longrightarrow> map_of (project proj d) ''_id'' = None"
  by (auto simp: project_def map_of_eq_None_iff)

lemma iso_received_keeps_id:
  "iso_received L d = Inr d' \<Longrightarrow> map_of d' ''_id'' = map_of d ''_id''"
  by (auto simp: iso_received_def bind_exn_def update_conv' split: sum.splits pyval.splits)

lemma iso_all_keeps_no_id:
  "iso_all L docs = Inr ds \<Longrightarrow> \<forall>d\<in>set docs. map_of d ''_id'' = None
     \<Longrightarrow> \<forall>d\<in>set ds. map_of d ''_id'' = None"
proof (induction docs arbitrary: ds)
  case Nil
  then show ?case by simp
next
  case (Cons d docs)
  from Cons.prems(1) obtain d' ds' where 1: "iso_received L d = Inr d'"
      "iso_all L docs = Inr ds'" "ds = d' # ds'"
    by (auto simp: bind_exn_def split: sum.splits)
  have "map_of d' ''_id'' = None"
    using iso_received_keeps_id [OF 1(1)] Cons.prems(2) by simp
  moreover have "\<forall>x\<in>set ds'. map_of x ''_id'' = None"
    using Cons.IH [OF 1(2)] Cons.prems(2) by simp
  ultimately show ?case
    using 1(3) by simp
qed

lemma listing_try_no_id:
  assumes "map_of proj ''_id'' = Some 0" and "listing_try L now a c proj db = Inr r"
  shows "\<exists>ds. r = ok_response (PList (map PDict ds)) \<and> (\<forall>d\<in>set ds. map_of d ''_id'' = None)"
proof -
  from assms(2) obtain q n docs ds where 1: "build_query L now a = Inr (q, n)"
      "find_sorted db c q proj n = Inr docs" "iso_all L docs = Inr ds"
      "r = ok_response (PList (map PDict ds))"
    by (auto simp: listing_try_def bind_exn_def split: sum.splits prod.splits)
  have "\<forall>d\<in>set docs. map_of d ''_id'' = None"
    using 1(2) assms(1)
    by (auto simp: find_sorted_def project_drops_id split: option.splits)
  then have "\<forall>d\<in>set ds. map_of d ''_id'' = None"
    using iso_all_keeps_no_id [OF 1(3)] by simp
  then show ?thesis
    using 1(4) by blast
qed

lemma listing_no_id:
  assumes "map_of proj ''_id'' = Some 0"
    and "body (guarded mdb (listing_try L now a c proj)) = PList xs"
  shows "\<forall>x\<in>set xs. \<exists>kv. x = PDict kv \<and> map_of kv ''_id'' = None"
proof (cases mdb)
  case None
  then show ?thesis
    using assms(2) by (simp add: guarded_def error_response_def)
next
  case (Some db)
  show ?thesis
  proof (cases "listing_try L now a c proj db")
    case (Inl e)
    then show ?thesis
      using assms(2) Some by (simp add: guarded_def error_response_def)
  next
    case (Inr r)
    then obtain ds where ds: "r = ok_response (PList (map PDict ds))"
        "\<forall>d\<in>set ds. map_of d ''_id'' = None"
      using listing_try_no_id [OF assms(1)] by blast
    have "xs = map PDict ds"
      using assms(2) Some Inr ds(1) by (simp add: guarded_def ok_response_def)
    then show ?thesis
      using ds(2) by auto
  qed
qed

text \<open>
  C10: when a GPS fix exists (and \<^verbatim>\<open>find_one\<close> does not raise, the fixes being as the
  handler stores them), the body of \<^verbatim>\<open>/api/gps/latest\<close> carries \<^verbatim>\<open>_id\<close>, and its value
  is the string \<^verbatim>\<open>str\<close> makes of the stored identifier of a fix. The two listings
  exclude it: whatever the store and the arguments are, no document in the list a
  listing answers has an \<^verbatim>\<open>_id\<close>.
\<close>

theorem latest_fix_carries_id_listings_do_not:
  assumes "raises db (FindOne Gps) = None" and "gps db \<noteq> []"
    and "\<forall>d\<in>set (gps db). (\<exists>t. map_of d ''received_at'' = Some (PDatetime t))
                            \<and> map_of d ''_id'' \<noteq> None"
  shows "(\<exists>s. handle L uri is_set now (Some db) GpsLatest a = ok_response (PDict s)
             \<and> (\<exists>d\<in>set (gps db). \<exists>v. map_of d ''_id'' = Some v
                    \<and> map_of s ''_id'' = Some (PStr (py_str L v))))
       \<and> (\<forall>xs. body (handle L uri is_set now mdb GetImu a') = PList xs \<longrightarrow>
              (\<forall>x\<in>set xs. \<exists>kv. x = PDict kv \<and> map_of kv ''_id'' = None))
       \<and> (\<forall>xs. body (handle L uri is_set now mdb GetGps a') = PList xs \<longrightarrow>
              (\<forall>x\<in>set xs. \<exists>kv. x = PDict kv \<and> map_of kv ''_id'' = None))"
proof (intro conjI allI impI)
  obtain d i t where d: "d \<in> set (gps db)" "map_of d ''_id'' = Some i"
      "gps_latest L (Some db) =
               ok_response (PDict (AList.update ''received_at'' (PStr (isoformat L t))
                                     (AList.update ''_id'' (PStr (py_str L i)) d)))"
    using gps_latest_result [OF assms, of L] by blast
  have "map_of (AList.update ''received_at'' (PStr (isoformat L t))
                  (AList.update ''_id'' (PStr (py_str L i)) d)) ''_id'' = Some (PStr (py_str L i))"
    by (simp add: update_conv')
  then show "\<exists>s. handle L uri is_set now (Some db) GpsLatest a = ok_response (PDict s)
             \<and> (\<exists>d\<in>set (gps db). \<exists>v. map_of d ''_id'' = Some v
                    \<and> map_of s ''_id'' = Some (PStr (py_str L v)))"
    using d by (intro exI [of _ "AList.update ''received_at'' (PStr (isoformat L t))
                  (AList.update ''_id'' (PStr (py_str L i)) d)"]) auto
next
  fix xs
  assume "body (handle L uri is_set now mdb GetImu a') = PList xs"
  then show "\<forall>x\<in>set xs. \<exists>kv. x = PDict kv \<and> map_of kv ''_id'' = None"
    using listing_no_id [of imu_projection mdb L now a' Imu xs]
    by (simp add: get_imu_def imu_projection_def)
next
  fix xs
  assume "body (handle L uri is_set now mdb GetGps a') = PList xs"
  then show "\<forall>x\<in>set xs. \<exists>kv. x = PDict kv \<and> map_of kv ''_id'' = None"
    using listing_no_id [of gps_projection mdb L now a' Gps xs]
    by (simp add: get_gps_def gps_projection_def)
qed

lemma get_gps_two_fixes:
  "get_gps (sample_lib PNone) 1700000000000000 (Some two_fixes_db) []
   = ok_response (PList [PDict [(''timestamp'', PInt 1), (''session'', PInt 7),
                                (''lat'', PFloat 1), (''lon'', PFloat 2),
                                (''received_at'', PStr ''1970-01-01T00:01:00'')],
                         PDict [(''timestamp'', PInt 2), (''session'', PInt 7),
                                (''lat'', PFloat 3), (''lon'', PFloat 4),
                                (''received_at'', PStr ''1970-01-01T00:02:00'')]])"
proof -
  have b: "build_query (sample_lib PNone) 1700000000000000 [] = Inr ([], 2000)"
    by (simp add: build_query_def limit_arg_def session_filter_def range_filter_def
        truthy_arg_def bind_exn_def)
  have f: "find_sorted two_fixes_db Gps [] gps_projection 2000
     = Inr [[(''timestamp'', PInt 1), (''session'', PInt 7),
             (''lat'', PFloat 1), (''lon'', PFloat 2), (''received_at'', PDatetime 60000000)],
            [(''timestamp'', PInt 2), (''session'', PInt 7),
             (''lat'', PFloat 3), (''lon'', PFloat 4), (''received_at'', PDatetime 120000000)]]"
    by (simp add: find_sorted_def raises_two_fixes_db gps_two_fixes_db matches_def
        received_key_def apply_limit_def project_def gps_projection_def)
  have i: "iso_all (sample_lib PNone)
           [[(''timestamp'', PInt 1), (''session'', PInt 7),
             (''lat'', PFloat 1), (''lon'', PFloat 2), (''received_at'', PDatetime 60000000)],
            [(''timestamp'', PInt 2), (''session'', PInt 7),
             (''lat'', PFloat 3), (''lon'', PFloat 4), (''received_at'', PDatetime 120000000)]]
     = Inr [[(''timestamp'', PInt 1), (''session'', PInt 7),
             (''lat'', PFloat 1), (''lon'', PFloat 2),
             (''received_at'', PStr ''1970-01-01T00:01:00'')],
            [(''timestamp'', PInt 2), (''session'', PInt 7),
             (''lat'', PFloat 3), (''lon'', PFloat 4),
             (''received_at'', PStr ''1970-01-01T00:02:00'')]]"
    by (simp add: iso_received_def bind_exn_def sample_lib_def)
  show ?thesis
    by (simp add: get_gps_def guarded_def listing_try_def bind_exn_def b f i
        del: iso_all.simps)
qed

text \<open>
  The instance: on the store with two fixes, the latest fix is answered with its
  \<^verbatim>\<open>_id\<close> as a string, and the GPS listing answers both fixes without \<^verbatim>\<open>_id\<close>.
\<close>

theorem latest_fix_carries_id_listings_do_not_witness:
  "handle (sample_lib PNone) ''mongodb://localhost:27017/vehicle_sensor'' True 1700000000000000
     (Some two_fixes_db) GpsLatest []
   = ok_response (PDict [(''_id'', PStr ''000000000000000000000001''), (''timestamp'', PInt 2),
                         (''session'', PInt 7), (''lat'', PFloat 3), (''lon'', PFloat 4),
                         (''received_at'', PStr ''1970-01-01T00:02:00'')])
   \<and> handle (sample_lib PNone) ''mongodb://localhost:27017/vehicle_sensor'' True 1700000000000000
     (Some two_fixes_db) GetGps []
   = ok_response (PList [PDict [(''timestamp'', PInt 1), (''session'', PInt 7),
                                (''lat'', PFloat 1), (''lon'', PFloat 2),
                                (''received_at'', PStr ''1970-01-01T00:01:00'')],
                         PDict [(''timestamp'', PInt 2), (''session'', PInt 7),
                                (''lat'', PFloat 3), (''lon'', PFloat 4),
                                (''received_at'', PStr ''1970-01-01T00:02:00'')]])"
proof -
  have p1: "raises two_fixes_db (FindOne Gps) = None"
    by (rule raises_two_fixes_db)
  have p2: "gps two_fixes_db \<noteq> []"
    by (simp add: gps_two_fixes_db)
  have p3: "\<forall>d\<in>set (gps two_fixes_db). (\<exists>t. map_of d ''received_at'' = Some (PDatetime t))
                            \<and> map_of d ''_id'' \<noteq> None"
    by (simp add: gps_two_fixes_db)
  note w = latest_fix_carries_id_listings_do_not [OF p1 p2 p3, where L = "sample_lib PNone"
      and uri = "''mongodb://localhost:27017/vehicle_sensor''" and is_set = True
      and now = 1700000000000000 and a = "[]" and a' = "[]" and mdb = "Some two_fixes_db"]
  from w have "\<exists>s. handle (sample_lib PNone) ''mongodb://localhost:27017/vehicle_sensor'' True
                  1700000000000000 (Some two_fixes_db) GpsLatest [] = ok_response (PDict s)
             \<and> (\<exists>d\<in>set (gps two_fixes_db). \<exists>v. map_of d ''_id'' = Some v
                    \<and> map_of s ''_id'' = Some (PStr (py_str (sample_lib PNone) v)))"
    by (elim conjE)
  then obtain s where s: "handle (sample_lib PNone) ''mongodb://localhost:27017/vehicle_sensor'' True
                  1700000000000000 (Some two_fixes_db) GpsLatest [] = ok_response (PDict s)"
    by (elim exE conjE)
  have l: "handle (sample_lib PNone) ''mongodb://localhost:27017/vehicle_sensor'' True
                  1700000000000000 (Some two_fixes_db) GpsLatest []
           = gps_latest (sample_lib PNone) (Some two_fixes_db)"
    by simp
  have g: "handle (sample_lib PNone) ''mongodb://localhost:27017/vehicle_sensor'' True
                  1700000000000000 (Some two_fixes_db) GetGps []
           = get_gps (sample_lib PNone) 1700000000000000 (Some two_fixes_db) []"
    by simp
  from s have "s = [(''_id'', PStr ''000000000000000000000001''), (''timestamp'', PInt 2),
                         (''session'', PInt 7), (''lat'', PFloat 3), (''lon'', PFloat 4),
                         (''received_at'', PStr ''1970-01-01T00:02:00'')]"
    unfolding l gps_latest_two_fixes by (simp add: ok_response_def)
  with s show ?thesis
    unfolding g get_gps_two_fixes by simp
qed

section \<open>The distinct sessions\<close>

lemma set_add_set: "set (set_add s v) \<subseteq> insert v (set s)"
  by (auto simp: set_add_def)

lemma set_add_keys: "py_key ` set (set_add s v) = insert (py_key v) (py_key ` set s)"
proof (cases "list_ex (\<lambda>x. py_key x = py_key v) s")
  case True
  then obtain x where "x \<in> set s" "py_key x = py_key v"
    by (auto simp: list_ex_iff)
  then have "py_key v \<in> py_key ` set s"
    by (metis imageI)
  then show ?thesis
    using True by (simp add: set_add_def insert_absorb)
next
  case False
  then show ?thesis
    by (simp add: set_add_def)
qed

lemma set_add_distinct:
  assumes "distinct (map py_key s)"
  shows "distinct (map py_key (set_add s v))"
proof (cases "list_ex (\<lambda>x. py_key x = py_key v) s")
  case True
  then show ?thesis
    using assms by (simp add: set_add_def)
next
  case False
  then have "py_key v \<notin> py_key ` set s"
    by (auto simp: list_ex_iff)
  then show ?thesis
    using assms False by (simp add: set_add_def)
qed

lemma foldl_set_add_set: "set (foldl set_add s xs) \<subseteq> set s \<union> set xs"
proof (induction xs arbitrary: s)
  case Nil
  then show ?case by simp
next
  case (Cons x xs)
  have "set (foldl set_add (set_add s x) xs) \<subseteq> set (set_add s x) \<union> set xs"
    by (rule Cons.IH)
  then show ?case
    using set_add_set [of s x] by auto
qed

lemma foldl_set_add_keys:
  "py_key ` set (foldl set_add s xs) = py_key ` (set s \<union> set xs)"
proof (induction xs arbitrary: s)
  case Nil
  then show ?case by simp
next
  case (Cons x xs)
  have "py_key ` set (foldl set_add (set_add s x) xs) = py_key ` (set (set_add s x) \<union> set xs)"
    by (rule Cons.IH)
  then show ?case
    using set_add_keys [of s x] by (simp add: image_Un)
qed

lemma foldl_set_add_distinct:
  "distinct (map py_key s) \<Longrightarrow> distinct (map py_key (foldl set_add s xs))"
  by (induction xs arbitrary: s) (simp_all add: set_add_distinct)

lemma unorderable_pair_None:
  assumes "distinct (map py_key xs)"
    and "\<forall>x\<in>set xs. \<forall>y\<in>set xs. py_key x \<noteq> py_key y \<longrightarrow> orderable x y"
  shows "unorderable_pair xs = None"
  using assms
proof (induction xs)
  case Nil
  then show ?case by simp
next
  case (Cons x xs)
  have "orderable x y" if "y \<in> set xs" for y
  proof -
    have "py_key x \<noteq> py_key y"
      using Cons.prems(1) that by auto
    then show ?thesis
      using Cons.prems(2) that by simp
  qed
  then have "find (\<lambda>y. \<not> orderable x y) xs = None"
    by (simp add: find_None_iff)
  moreover have "unorderable_pair xs = None"
    using Cons by simp
  ultimately show ?case
    by simp
qed

lemma json_scalar_hashable: "json_scalar v \<Longrightarrow> hashable v"
  by (cases v) (simp_all add: json_scalar_def hashable_def)

lemma json_scalar_no_object_id: "json_scalar v \<Longrightarrow> \<not> contains_object_id v"
  by (cases v) (simp_all add: json_scalar_def)

lemma py_set_scalars:
  assumes "\<forall>x\<in>set xs. json_scalar x"
  shows "py_set xs = Inr (foldl set_add [] xs)"
proof -
  have "find (\<lambda>v. \<not> hashable v) xs = None"
    using assms by (simp add: find_None_iff json_scalar_hashable)
  then show ?thesis
    by (simp add: py_set_def)
qed

lemma jsonify_scalars:
  assumes "\<forall>x\<in>set xs. json_scalar x"
  shows "jsonify (PList xs) = Inr (PList xs)"
proof -
  have "\<not> contains_object_id (PList xs)"
    using assms by (simp add: list_ex_iff json_scalar_no_object_id)
  then show ?thesis
    unfolding jsonify_def by (rule if_not_P)
qed

lemma sorted_reverse_result:
  assumes "distinct (map py_key u)"
  shows "sorted (rev (map py_key (rev (sort_key py_key (rev u)))))"
    and "distinct (map py_key (rev (sort_key py_key (rev u))))"
    and "set (rev (sort_key py_key (rev u))) = set u"
proof -
  show "sorted (rev (map py_key (rev (sort_key py_key (rev u)))))"
    by (simp add: rev_map)
  have "distinct (sort_key py_key (rev u))" and "inj_on py_key (set (sort_key py_key (rev u)))"
    using assms by (simp_all add: distinct_map)
  then show "distinct (map py_key (rev (sort_key py_key (rev u))))"
    by (simp add: distinct_map)
  show "set (rev (sort_key py_key (rev u))) = set u"
    by simp
qed

lemma sessions_try_result:
  assumes "distinct_values db Imu ''session'' = Inr imu_s"
    and "distinct_values db Gps ''session'' = Inr gps_s"
    and "\<forall>x\<in>set (imu_s @ gps_s). json_scalar x"
    and "\<forall>x\<in>set (imu_s @ gps_s). \<forall>y\<in>set (imu_s @ gps_s). py_key x \<noteq> py_key y \<longrightarrow> orderable x y"
  shows "\<exists>u. sessions_try db = Inr (ok_response (PList (rev (sort_key py_key (rev u)))))
           \<and> distinct (map py_key u) \<and> set u \<subseteq> set imu_s \<union> set gps_s
           \<and> py_key ` set u = py_key ` (set imu_s \<union> set gps_s)"
proof -
  define s1 where "s1 = foldl set_add [] imu_s"
  define s2 where "s2 = foldl set_add [] gps_s"
  define u where "u = foldl set_add s1 s2"
  define r where "r = rev (sort_key py_key (rev u))"
  have h: "\<forall>x\<in>set imu_s. json_scalar x" "\<forall>x\<in>set gps_s. json_scalar x"
    using assms(3) by simp_all
  have sub1: "set s1 \<subseteq> set imu_s" and sub2: "set s2 \<subseteq> set gps_s"
    using foldl_set_add_set [of "[]" imu_s] foldl_set_add_set [of "[]" gps_s]
    unfolding s1_def s2_def by simp_all
  have sub: "set u \<subseteq> set imu_s \<union> set gps_s"
    using foldl_set_add_set [of s1 s2] sub1 sub2 unfolding u_def by blast
  have k1: "py_key ` set s1 = py_key ` set imu_s" and k2: "py_key ` set s2 = py_key ` set gps_s"
    using foldl_set_add_keys [of "[]" imu_s] foldl_set_add_keys [of "[]" gps_s]
    unfolding s1_def s2_def by simp_all
  have k: "py_key ` set u = py_key ` (set imu_s \<union> set gps_s)"
    using foldl_set_add_keys [of s1 s2] k1 k2 unfolding u_def by (simp add: image_Un)
  have d: "distinct (map py_key u)"
    unfolding u_def s1_def by (intro foldl_set_add_distinct) simp
  have "\<forall>x\<in>set u. \<forall>y\<in>set u. py_key x \<noteq> py_key y \<longrightarrow> orderable x y"
    using sub assms(4) by (simp add: subset_iff)
  with d have po: "unorderable_pair u = None"
    by (rule unorderable_pair_None)
  have 1: "py_set imu_s = Inr s1" and 2: "py_set gps_s = Inr s2"
    unfolding s1_def s2_def using h by (simp_all add: py_set_scalars)
  have 3: "py_union s1 s2 = u"
    by (simp add: py_union_def u_def)
  have 4: "py_sorted_reverse u = Inr r"
    by (simp add: py_sorted_reverse_def po r_def)
  have "\<forall>x\<in>set r. json_scalar x"
    using sub assms(3) unfolding r_def by (auto simp: subset_iff)
  then have 5: "jsonify (PList r) = Inr (PList r)"
    by (rule jsonify_scalars)
  have "sessions_try db = Inr (ok_response (PList r))"
    by (simp add: sessions_try_def bind_exn_def assms(1,2) 1 2 3 4 5)
  then show ?thesis
    unfolding r_def using d sub k by blast
qed

text \<open>
  C6, as amended: when the two \<^verbatim>\<open>distinct\<close> calls answer (the store is connected and
  they do not raise) and the session values are JSON scalars (null, booleans, numbers,
  strings) that can be ordered with each other (any two that are not equal are both
  numbers or both strings), the view answers the list of the union of the two answers: in
  descending order, each value once (a value of both kinds counts once), every member
  taken from one of the two answers and every value of the two answers represented.
\<close>

theorem sessions_sorted_union:
  assumes "distinct_values db Imu ''session'' = Inr imu_s"
    and "distinct_values db Gps ''session'' = Inr gps_s"
    and "\<forall>x\<in>set (imu_s @ gps_s). json_scalar x"
    and "\<forall>x\<in>set (imu_s @ gps_s). \<forall>y\<in>set (imu_s @ gps_s). py_key x \<noteq> py_key y \<longrightarrow> orderable x y"
  shows "\<exists>r. handle L uri is_set now (Some db) Sessions a = ok_response (PList r)
           \<and> sorted (rev (map py_key r)) \<and> distinct (map py_key r)
           \<and> set r \<subseteq> set imu_s \<union> set gps_s
           \<and> py_key ` set r = py_key ` (set imu_s \<union> set gps_s)"
proof -
  obtain u where u: "sessions_try db = Inr (ok_response (PList (rev (sort_key py_key (rev u)))))"
      "distinct (map py_key u)" "set u \<subseteq> set imu_s \<union> set gps_s"
      "py_key ` set u = py_key ` (set imu_s \<union> set gps_s)"
    using sessions_try_result [OF assms] by blast
  define r where "r = rev (sort_key py_key (rev u))"
  have 1: "handle L uri is_set now (Some db) Sessions a = ok_response (PList r)"
    by (simp add: sessions_def guarded_def u(1) r_def)
  have 2: "sorted (rev (map py_key r))" and 3: "distinct (map py_key r)" and 4: "set r = set u"
    unfolding r_def using sorted_reverse_result [OF u(2)] by simp_all
  show ?thesis
    using 1 2 3 4 u(3,4) by (intro exI [of _ r]) simp
qed

lemma sessions_db_distinct:
  "distinct_values sessions_db Imu ''session'' = Inr [PInt 2, PInt 1]"
  "distinct_values sessions_db Gps ''session'' = Inr [PInt 2, PInt 3]"
  by (simp_all add: distinct_values_def sessions_db_def empty_db_def)

lemma sessions_db_sessions:
  "sessions (Some sessions_db) = ok_response (PList [PInt 3, PInt 2, PInt 1])"
  by (simp add: sessions_def guarded_def sessions_try_def bind_exn_def sessions_db_distinct
      py_set_def hashable_def set_add_def py_union_def py_sorted_reverse_def orderable_def
      jsonify_def)

text \<open>
  The instance of the specification: the IMU sessions 1 and 2 and the GPS sessions 2 and 3
  give the list 3, 2, 1.
\<close>

theorem sessions_sorted_union_witness:
  "handle (sample_lib PNone) ''mongodb://localhost:27017/vehicle_sensor'' True 1700000000000000
     (Some sessions_db) Sessions []
   = ok_response (PList [PInt 3, PInt 2, PInt 1])"
proof -
  have p3: "\<forall>x\<in>set ([PInt 2, PInt 1] @ [PInt 2, PInt 3]). json_scalar x"
    by (simp add: json_scalar_def)
  have p4: "\<forall>x\<in>set ([PInt 2, PInt 1] @ [PInt 2, PInt 3]).
              \<forall>y\<in>set ([PInt 2, PInt 1] @ [PInt 2, PInt 3]). py_key x \<noteq> py_key y \<longrightarrow> orderable x y"
    by (simp add: orderable_def)
  note w = sessions_sorted_union [OF sessions_db_distinct p3 p4, where L = "sample_lib PNone"
      and uri = "''mongodb://localhost:27017/vehicle_sensor''" and is_set = True
      and now = 1700000000000000 and a = "[]"]
  from w obtain r where r: "handle (sample_lib PNone) ''mongodb://localhost:27017/vehicle_sensor''
       True 1700000000000000 (Some sessions_db) Sessions [] = ok_response (PList r)"
    by (elim exE conjE)
  have "handle (sample_lib PNone) ''mongodb://localhost:27017/vehicle_sensor''
       True 1700000000000000 (Some sessions_db) Sessions [] = sessions (Some sessions_db)"
    by simp
  with r have "r = [PInt 3, PInt 2, PInt 1]"
    unfolding sessions_db_sessions by (simp add: ok_response_def)
  with r show ?thesis
    by simp
qed

text \<open>
  C6 as it was stated fails: with session 1 among the IMU records and the session
  \<^verbatim>\<open>a\<close> among the GPS records, \<^verbatim>\<open>sorted\<close> raises TypeError on the set of the two,
  which cannot be ordered, and the view answers the error object with status 500, not the
  list.
\<close>

theorem sessions_mixed_types_counterexample:
  "distinct_values mixed_sessions_db Imu ''session'' = Inr [PInt 1]
   \<and> distinct_values mixed_sessions_db Gps ''session'' = Inr [PStr ''a'']
   \<and> status (handle (sample_lib PNone) ''mongodb://localhost:27017/vehicle_sensor'' True
               1700000000000000 (Some mixed_sessions_db) Sessions []) = 500
   \<and> is_error_object (body (handle (sample_lib PNone) ''mongodb://localhost:27017/vehicle_sensor''
                               True 1700000000000000 (Some mixed_sessions_db) Sessions []))"
proof -
  have d: "distinct_values mixed_sessions_db Imu ''session'' = Inr [PInt 1]"
    "distinct_values mixed_sessions_db Gps ''session'' = Inr [PStr ''a'']"
    by (simp_all add: distinct_values_def mixed_sessions_db_def empty_db_def)
  have "sessions (Some mixed_sessions_db)
        = error_response (str_exn (not_supported (PInt 1) (PStr ''a'')))"
    by (simp add: sessions_def guarded_def sessions_try_def bind_exn_def d
        py_set_def hashable_def set_add_def py_union_def py_sorted_reverse_def orderable_def)
  then show ?thesis
    using d by (simp add: error_response_def is_error_object_def not_supported_def)
qed

end
